theory Spec2Isabelle
  imports Complex_Main "HOL-Library.Log_Nat"
begin

section \<open>JavaScript values used by the API client\<close>

text \<open>
  A JavaScript number is an IEEE 754 double: \<open>NaN\<close>, one of the two infinities, or a finite
  value, which is modelled by the rational number it denotes. The arithmetic operations
  round their exact result to the nearest double (\<open>to_double\<close> below). The sign of zero is
  not modelled: the only division of the program has a non-zero divisor, and a zero of either
  sign is written as \<open>0\<close> into the request. An optional field (\<open>undefined\<close> when absent) is
  an \<open>option\<close>.
\<close>

datatype jsnum = NaN | NegInf | Fin rat | PosInf

text \<open>
  Rounding to the nearest double, ties to even, of the rational \<open>p / q\<close> in lowest terms.
  \<open>e\<close> is the exponent with \<open>2^e \<le> |p| / q < 2^(e+1)\<close>, found from the bit lengths of
  \<open>|p|\<close> and \<open>q\<close>. The doubles of that binade, and the subnormal ones below \<open>2^-1022\<close>, are
  the multiples \<open>m * 2^s\<close> of the unit \<open>2^s\<close>, \<open>s = max e (-1022) - 52\<close>; \<open>m\<close> is the quotient
  \<open>|p| / (q * 2^s)\<close> rounded to the nearest integer, a tie to the even one. A result of
  \<open>2^1024\<close> or more is an infinity.
\<close>

definition to_double :: "rat \<Rightarrow> jsnum" where
  "to_double x =
     (case quotient_of x of (p, q) \<Rightarrow>
        if p = 0 then Fin 0
        else let a = \<bar>p\<bar>;
                 k = bitlen a - bitlen q;
                 e = (if (if 0 \<le> k then q * 2 ^ nat k \<le> a else q \<le> a * 2 ^ nat (- k))
                      then k else k - 1);
                 s = max e (- 1022) - 52;
                 n = (if s \<le> 0 then a * 2 ^ nat (- s) else a);
                 d = (if s \<le> 0 then q else q * 2 ^ nat s);
                 f = n div d;
                 r = n mod d;
                 m = (if 2 * r < d then f else if d < 2 * r then f + 1
                      else if even f then f else f + 1)
             in if 1024 \<le> e \<or> (e = 1023 \<and> m = 2 ^ 53)
                then (if 0 < p then PosInf else NegInf)
                else Fin ((if 0 < p then 1 else - 1) *
                          (if s \<le> 0 then Fract m (2 ^ nat (- s)) else of_int (m * 2 ^ nat s))))"

text \<open>The rationals that are doubles.\<close>

definition is_double :: "rat \<Rightarrow> bool" where
  "is_double x = (to_double x = Fin x)"

text \<open>\<open>Number(x)\<close> on a field of type \<open>number | undefined\<close>: \<open>Number(undefined)\<close> is \<open>NaN\<close>.\<close>

definition Number :: "jsnum option \<Rightarrow> jsnum" where
  "Number x = (case x of None \<Rightarrow> NaN | Some n \<Rightarrow> n)"

text \<open>The relational operators: every comparison with \<open>NaN\<close> is false.\<close>

fun js_lt :: "jsnum \<Rightarrow> jsnum \<Rightarrow> bool" where
  "js_lt NaN _ = False"
| "js_lt _ NaN = False"
| "js_lt NegInf NegInf = False"
| "js_lt NegInf _ = True"
| "js_lt (Fin a) (Fin b) = (a < b)"
| "js_lt (Fin a) PosInf = True"
| "js_lt (Fin a) NegInf = False"
| "js_lt PosInf _ = False"

definition js_gt :: "jsnum \<Rightarrow> jsnum \<Rightarrow> bool" where
  "js_gt a b = js_lt b a"

definition isNaN :: "jsnum \<Rightarrow> bool" where
  "isNaN n = (n = NaN)"

text \<open>Truthiness of a number: \<open>NaN\<close> and \<open>0\<close> are falsy.\<close>

definition truthy_num :: "jsnum \<Rightarrow> bool" where
  "truthy_num n = (n \<noteq> NaN \<and> n \<noteq> Fin 0)"

text \<open>\<open>a || b\<close> on numbers.\<close>

definition num_or :: "jsnum \<Rightarrow> jsnum \<Rightarrow> jsnum" where
  "num_or a b = (if truthy_num a then a else b)"

text \<open>\<open>Math.max(a, b)\<close>: \<open>NaN\<close> if either argument is.\<close>

definition Math_max :: "jsnum \<Rightarrow> jsnum \<Rightarrow> jsnum" where
  "Math_max a b = (if a = NaN \<or> b = NaN then NaN else if js_lt a b then b else a)"

fun js_add :: "jsnum \<Rightarrow> jsnum \<Rightarrow> jsnum" where
  "js_add NaN _ = NaN"
| "js_add _ NaN = NaN"
| "js_add PosInf NegInf = NaN"
| "js_add NegInf PosInf = NaN"
| "js_add PosInf _ = PosInf"
| "js_add _ PosInf = PosInf"
| "js_add NegInf _ = NegInf"
| "js_add _ NegInf = NegInf"
| "js_add (Fin a) (Fin b) = to_double (a + b)"

text \<open>\<open>a / b\<close>: a finite non-zero value over zero is an infinity, \<open>0 / 0\<close> is \<open>NaN\<close>.\<close>

fun js_div :: "jsnum \<Rightarrow> jsnum \<Rightarrow> jsnum" where
  "js_div NaN _ = NaN"
| "js_div _ NaN = NaN"
| "js_div (Fin a) (Fin b) =
     (if b = 0 then (if a = 0 then NaN else if 0 < a then PosInf else NegInf)
      else to_double (a / b))"
| "js_div (Fin a) _ = Fin 0"
| "js_div PosInf (Fin b) = (if b < 0 then NegInf else PosInf)"
| "js_div NegInf (Fin b) = (if b < 0 then PosInf else NegInf)"
| "js_div _ _ = NaN"

text \<open>
  \<open>Math.round\<close>: to the nearest integer, a half rounds towards \<open>+\<infinity>\<close>. The result is exact:
  a double below \<open>2^52\<close> in magnitude rounds to an integer below \<open>2^53\<close>, and every other
  double is an integer.
\<close>

fun Math_round :: "jsnum \<Rightarrow> jsnum" where
  "Math_round (Fin a) = Fin (of_int \<lfloor>a + 1 / 2\<rfloor>)"
| "Math_round n = n"

text \<open>Truthiness of an optional string: \<open>undefined\<close> and the empty string are falsy.\<close>

definition truthy_str :: "string option \<Rightarrow> bool" where
  "truthy_str s = (case s of None \<Rightarrow> False | Some t \<Rightarrow> t \<noteq> [])"

definition str_or :: "string option \<Rightarrow> string \<Rightarrow> string" where
  "str_or s d = (case s of None \<Rightarrow> d | Some t \<Rightarrow> if t \<noteq> [] then t else d)"

text \<open>\<open>s.includes(c)\<close> for a one-character needle.\<close>

definition str_includes :: "string \<Rightarrow> char \<Rightarrow> bool" where
  "str_includes s c = (c \<in> set s)"

text \<open>\<open>s.trim()\<close>, on the ASCII white space characters.\<close>

definition is_space :: "char \<Rightarrow> bool" where
  "is_space c = (c \<in> set [CHR '' '', CHR 0x09, CHR 0x0A, CHR 0x0B, CHR 0x0C, CHR 0x0D])"

definition trim :: "string \<Rightarrow> string" where
  "trim s = rev (dropWhile is_space (rev (dropWhile is_space s)))"

text \<open>Decimal rendering of an array index inside a template string.\<close>

fun digits_of :: "nat \<Rightarrow> nat \<Rightarrow> string" where
  "digits_of 0 n = []"
| "digits_of (Suc fuel) n =
     (if n < 10 then [char_of (48 + n)]
      else digits_of fuel (n div 10) @ [char_of (48 + n mod 10)])"

definition show_nat :: "nat \<Rightarrow> string" where
  "show_nat n = digits_of (Suc n) n"

section \<open>Input records\<close>

text \<open>The fields of a driver, an order and a depot that the API client reads.\<close>

record Driver =
  name :: "string option"
  start_location_lat :: "jsnum option"
  start_location_lng :: "jsnum option"
  capacity :: "jsnum option"
  volume_capacity :: "jsnum option"
  working_hours_start :: "string option"
  working_hours_end :: "string option"
  cost_per_km :: "jsnum option"
  vehicle_type :: "string option"
  fixed_cost :: "jsnum option"
  unit_distance_cost :: "jsnum option"
  unit_duration_cost :: "jsnum option"
  visit_preference_1 :: "jsnum option"
  visit_preference_2 :: "jsnum option"
  visit_preference_3 :: "jsnum option"
  visit_preference_4 :: "jsnum option"

record Order =
  order_id :: "string option"
  delivery_lat :: "jsnum option"
  delivery_lng :: "jsnum option"
  weight :: "jsnum option"
  volume :: "jsnum option"
  time_window_start :: "string option"
  time_window_end :: "string option"
  priority :: "jsnum option"
  service_time :: "jsnum option"

record Depot =
  depot_name :: "string option"
  lat :: "jsnum option"
  lng :: "jsnum option"

datatype objective_type = minsum | minmax

datatype distance_type = manhattan | euclidean | osrm

text \<open>The options bag; an absent bag is the bag with every field absent.\<close>

record Options =
  objective :: "objective_type option"
  timeLimit :: "jsnum option"
  enableCapacityConstraint :: "bool option"
  enableTimeWindowConstraint :: "bool option"
  allowUnassignedVisits :: "bool option"
  distanceType :: "distance_type option"
  deliveryStartTime :: "string option"

definition no_options :: Options where
  "no_options = \<lparr> objective = None, timeLimit = None, enableCapacityConstraint = None,
     enableTimeWindowConstraint = None, allowUnassignedVisits = None, distanceType = None,
     deliveryStartTime = None \<rparr>"

section \<open>Problem classifier\<close>

datatype problem_type =
  TSP | CVRP | CVRPTW | CVRP_Driver_Shifts | CVRP_Preferences | Multi_Objective_CVRP

datatype complexity_level = Low | Medium | Medium_High | High

text \<open>The result of the classifier; its field \<open>type\<close> is \<open>ptype\<close> here.\<close>

record ProblemAnalysis =
  ptype :: problem_type
  complexity :: complexity_level
  hasCapacity :: bool
  hasTimeWindows :: bool
  hasWorkingHours :: bool
  hasPreferences :: bool
  hasMultiObjective :: bool
  hasDiverseVehicleTypes :: bool
  isLargeProblem :: bool

text \<open>\<open>shouldEnableCapacityConstraintFromData\<close>: capacity detection on the raw data.\<close>

definition shouldEnableCapacityConstraintFromData :: "Driver list \<Rightarrow> Order list \<Rightarrow> bool" where
  "shouldEnableCapacityConstraintFromData drivers orders =
     (let hasOrderVolume = list_ex (\<lambda>order.
            js_gt (num_or (Number (volume order)) (Fin 0)) (Fin 0) \<or>
            js_gt (num_or (Number (weight order)) (Fin 0)) (Fin 0)) orders;
          hasDriverCapacity = list_ex (\<lambda>driver.
            js_gt (num_or (Number (volume_capacity driver)) (Fin 0)) (Fin 0) \<or>
            js_gt (num_or (Number (capacity driver)) (Fin 0)) (Fin 0)) drivers
      in hasOrderVolume \<or> hasDriverCapacity)"

text \<open>
  The branch chain of \<open>analyzeProblemType\<close> that picks the type and the complexity; the
  variables start as \<open>'TSP'\<close> and \<open>'Low'\<close> and keep these values when no branch is taken.
\<close>

definition classify ::
  "nat \<Rightarrow> bool \<Rightarrow> bool \<Rightarrow> bool \<Rightarrow> bool \<Rightarrow> bool \<Rightarrow> bool \<Rightarrow> problem_type \<times> complexity_level" where
  "classify ndrivers hasCap hasTW hasWH hasPref hasMulti hasDiverse =
     (if ndrivers = 1 \<and> \<not> hasCap \<and> \<not> hasTW then (TSP, Low)
      else if hasCap \<and> \<not> hasTW \<and> \<not> hasWH \<and> \<not> hasPref then (CVRP, Medium)
      else if hasCap \<and> hasTW then (CVRPTW, High)
      else if hasCap \<and> hasWH then (CVRP_Driver_Shifts, Medium_High)
      else if hasPref \<or> hasDiverse then (CVRP_Preferences, Medium)
      else if hasMulti then (Multi_Objective_CVRP, Medium_High)
      else if ndrivers > 1 then (CVRP, Medium)
      else (TSP, Low))"

text \<open>
  \<open>analyzeProblemType\<close>. The size of the \<open>Set\<close> of vehicle types is the number of distinct
  entries of the mapped list. The depots argument is not read by the source.
\<close>

definition analyzeProblemType :: "Driver list \<Rightarrow> Order list \<Rightarrow> Options \<Rightarrow> ProblemAnalysis" where
  "analyzeProblemType drivers orders options =
     (let hasCap = (case enableCapacityConstraint options of
              Some b \<Rightarrow> b
            | None \<Rightarrow>
                list_ex (\<lambda>d. js_gt (Number (capacity d)) (Fin 0)) drivers \<or>
                list_ex (\<lambda>ord. js_gt (Number (weight ord)) (Fin 0) \<or>
                                js_gt (Number (volume ord)) (Fin 0)) orders);
          hasTW = (enableTimeWindowConstraint options = Some True \<or>
                   list_ex (\<lambda>ord. truthy_str (time_window_start ord) \<and>
                                   truthy_str (time_window_end ord)) orders);
          hasWH = list_ex (\<lambda>d. truthy_str (working_hours_start d) \<or>
                                truthy_str (working_hours_end d)) drivers;
          hasPref = list_ex (\<lambda>d. visit_preference_1 d \<noteq> None \<or> visit_preference_2 d \<noteq> None \<or>
                                  visit_preference_3 d \<noteq> None \<or> visit_preference_4 d \<noteq> None) drivers;
          hasMulti = list_ex (\<lambda>d. js_gt (Number (fixed_cost d)) (Fin 0) \<or>
                                   js_gt (Number (unit_distance_cost d)) (Fin 0) \<or>
                                   js_gt (Number (unit_duration_cost d)) (Fin 0)) drivers;
          hasDiverse = (length (remdups (map (\<lambda>d. str_or (vehicle_type d) ''car'') drivers)) > 1);
          tc = classify (length drivers) hasCap hasTW hasWH hasPref hasMulti hasDiverse
      in \<lparr> ptype = fst tc, complexity = snd tc, hasCapacity = hasCap, hasTimeWindows = hasTW,
           hasWorkingHours = hasWH, hasPreferences = hasPref, hasMultiObjective = hasMulti,
           hasDiverseVehicleTypes = hasDiverse,
           isLargeProblem = (length orders > 1000 \<or> length drivers > 50) \<rparr>)"

section \<open>Request builder\<close>

text \<open>The codes of the \<open>TMSError\<close>s thrown by the API client.\<close>

datatype error_code =
  OPTIMIZATION_FAILED | LONG_REQUEST_FAILED | NO_RESULT | JOB_FAILED | UNKNOWN_STATUS | TIMEOUT
| INVALID_DEPOT_COORDINATES | INVALID_DRIVER_COORDINATES | INSUFFICIENT_DATA
| INVALID_COORDINATES | INVALID_REQUEST | NO_VISITS | NO_VEHICLES | INVALID_TIME_WINDOWS
| BAD_REQUEST | UNAUTHORIZED | FORBIDDEN | NOT_FOUND | METHOD_NOT_ALLOWED | NOT_ACCEPTABLE
| UNPROCESSABLE_ENTITY | RATE_LIMIT | SERVER_ERROR | HTTP_ERROR | UNKNOWN_ERROR

record Coordinate =
  c_lng :: jsnum
  c_lat :: jsnum

record OmeletDepot =
  od_name :: string
  od_coordinate :: Coordinate

record Visit =
  visit_name :: string
  visit_coordinate :: Coordinate
  visit_weight :: "jsnum option"
  visit_volume :: "jsnum option"
  unassigned_penalty :: "jsnum option"
  time_window :: "(string \<times> string) option"
  visit_service_time :: "jsnum option"

record Vehicle =
  veh_name :: string
  veh_vehicle_type :: string
  weight_capacity :: "jsnum option"
  veh_volume_capacity :: "jsnum option"
  veh_fixed_cost :: jsnum
  veh_unit_distance_cost :: jsnum
  veh_unit_duration_cost :: jsnum
  return_to_depot :: bool
  work_start_time :: "string option"
  work_end_time :: "string option"
  visit_preference :: "jsnum list option"

record ApiOption =
  opt_objective_type :: objective_type
  timelimit :: jsnum
  opt_distance_type :: distance_type
  allow_unassigned_visits :: bool
  use_large_size_optimization_algorithm :: bool
  include_departure_cost_from_depot :: bool
  include_return_cost_to_depot :: bool

record OmeletRequest =
  depot :: OmeletDepot
  visits :: "Visit list"
  vehicles :: "Vehicle list"
  option :: ApiOption
  delivery_start_time :: "string option"

text \<open>The coordinate check shared by \<open>buildDepot\<close> and \<open>buildVisits\<close>.\<close>

definition invalid_coordinates :: "jsnum \<Rightarrow> jsnum \<Rightarrow> bool" where
  "invalid_coordinates lg lt =
     (isNaN lg \<or> isNaN lt \<or> js_lt lg (Fin (- 180)) \<or> js_gt lg (Fin 180) \<or>
      js_lt lt (Fin (- 90)) \<or> js_gt lt (Fin 90))"

definition buildDepot :: "Depot list \<Rightarrow> Driver list \<Rightarrow> error_code + OmeletDepot" where
  "buildDepot depots drivers =
     (case depots of
        d # _ \<Rightarrow>
          (let depotLng = Number (lng d); depotLat = Number (lat d)
           in if invalid_coordinates depotLng depotLat then Inl INVALID_DEPOT_COORDINATES
              else Inr \<lparr> od_name = str_or (depot_name d) ''Main Depot'',
                         od_coordinate = \<lparr> c_lng = depotLng, c_lat = depotLat \<rparr> \<rparr>)
      | [] \<Rightarrow>
          (case drivers of
             d # _ \<Rightarrow>
               (let driverLng = Number (start_location_lng d);
                    driverLat = Number (start_location_lat d)
                in if invalid_coordinates driverLng driverLat then Inl INVALID_DRIVER_COORDINATES
                   else Inr \<lparr> od_name = ''Default Depot'',
                              od_coordinate = \<lparr> c_lng = driverLng, c_lat = driverLat \<rparr> \<rparr>)
           | [] \<Rightarrow> Inl INSUFFICIENT_DATA))"

text \<open>
  A bound in \<open>HH:MM\<close> form is combined with the current calendar date \<open>today\<close>
  (\<open>new Date().toISOString().split('T')[0]\<close>, a parameter of the model) and a UTC designator.
\<close>

definition with_today :: "string \<Rightarrow> string \<Rightarrow> string" where
  "with_today today t = today @ ''T'' @ t @ '':00Z''"

text \<open>The callback of \<open>orders.map\<close> in \<open>buildVisits\<close>, for the order at position \<open>index\<close>.\<close>

definition buildVisit :: "string \<Rightarrow> ProblemAnalysis \<Rightarrow> nat \<Rightarrow> Order \<Rightarrow> error_code + Visit" where
  "buildVisit today problemAnalysis index order =
     (let lg = Number (delivery_lng order); lt = Number (delivery_lat order)
      in if invalid_coordinates lg lt then Inl INVALID_COORDINATES
         else
           (let windowed = (hasTimeWindows problemAnalysis \<and> truthy_str (time_window_start order)
                            \<and> truthy_str (time_window_end order))
            in Inr \<lparr>
              visit_name = str_or (order_id order) (''Order_'' @ show_nat (index + 1)),
              visit_coordinate = \<lparr> c_lng = lg, c_lat = lt \<rparr>,
              visit_weight =
                (if hasCapacity problemAnalysis
                 then Some (Math_max (Fin 0) (num_or (Number (weight order)) (Fin 0))) else None),
              visit_volume =
                (if hasCapacity problemAnalysis
                 then Some (Math_max (Fin 0) (num_or (Number (volume order)) (Fin 0))) else None),
              unassigned_penalty =
                (if hasPreferences problemAnalysis \<and> truthy_num (Number (priority order))
                 then Some (Math_round (js_div (Fin 1000) (Number (priority order))))
                 else if ptype problemAnalysis \<noteq> TSP then Some (Fin 100)
                 else None),
              time_window =
                (if windowed
                 then (let s = the (time_window_start order); e = the (time_window_end order)
                       in if str_includes s CHR ''T'' then Some (s, e)
                          else Some (with_today today s, with_today today e))
                 else None),
              visit_service_time =
                (if windowed then Some (num_or (Number (service_time order)) (Fin 10))
                 else None) \<rparr>))"

text \<open>
  The earlier version of the client, which is still in the repository, builds its visits
  without a classification and always sets the penalty.
\<close>

definition legacy_unassigned_penalty :: "Order \<Rightarrow> jsnum" where
  "legacy_unassigned_penalty order =
     (if truthy_num (Number (priority order))
      then Math_round (js_div (Fin 1000) (Number (priority order))) else Fin 100)"

text \<open>\<open>orders.map\<close>: the first throwing callback aborts the whole map.\<close>

fun buildVisits_from ::
  "string \<Rightarrow> ProblemAnalysis \<Rightarrow> nat \<Rightarrow> Order list \<Rightarrow> error_code + Visit list" where
  "buildVisits_from today pa i [] = Inr []"
| "buildVisits_from today pa i (x # xs) =
     (case buildVisit today pa i x of
        Inl e \<Rightarrow> Inl e
      | Inr v \<Rightarrow>
          (case buildVisits_from today pa (Suc i) xs of
             Inl e \<Rightarrow> Inl e
           | Inr vs \<Rightarrow> Inr (v # vs)))"

definition buildVisits :: "string \<Rightarrow> Order list \<Rightarrow> ProblemAnalysis \<Rightarrow> error_code + Visit list" where
  "buildVisits today orders problemAnalysis = buildVisits_from today problemAnalysis 0 orders"

text \<open>Normalisation of one working-hours bound in \<open>buildVehicles\<close>.\<close>

definition work_time :: "string \<Rightarrow> string \<Rightarrow> string" where
  "work_time today t =
     (if str_includes t CHR ''+'' \<or> str_includes t CHR ''Z'' then t
      else if str_includes t CHR ''T'' then t
      else with_today today t)"

text \<open>
  The callback of \<open>drivers.map\<close> in \<open>buildVehicles\<close>. It assigns to the shared
  \<open>problemAnalysis.hasTimeWindows\<close>, so the analysis is threaded through and returned.
\<close>

definition buildVehicle ::
  "string \<Rightarrow> ProblemAnalysis \<Rightarrow> nat \<Rightarrow> Driver \<Rightarrow> Vehicle \<times> ProblemAnalysis" where
  "buildVehicle today problemAnalysis index driver =
     (let wc = Math_max (Fin 1) (num_or (Number (capacity driver)) (Fin 1000));
          preferences =
            (if visit_preference_1 driver \<noteq> None then [Number (visit_preference_1 driver)] else []) @
            (if visit_preference_2 driver \<noteq> None then [Number (visit_preference_2 driver)] else []) @
            (if visit_preference_3 driver \<noteq> None then [Number (visit_preference_3 driver)] else []) @
            (if visit_preference_4 driver \<noteq> None then [Number (visit_preference_4 driver)] else [])
      in (\<lparr>
           veh_name = str_or (name driver) (''Vehicle_'' @ show_nat (index + 1)),
           veh_vehicle_type = trim (str_or (vehicle_type driver) ''car''),
           weight_capacity = (if hasCapacity problemAnalysis then Some wc else None),
           veh_volume_capacity =
             (if hasCapacity problemAnalysis
              then (if js_gt (Number (volume_capacity driver)) (Fin 0)
                    then Some (Number (volume_capacity driver)) else Some wc)
              else None),
           veh_fixed_cost =
             (if hasMultiObjective problemAnalysis then num_or (Number (fixed_cost driver)) (Fin 0)
              else Fin 0),
           veh_unit_distance_cost =
             (if hasMultiObjective problemAnalysis
              then num_or (num_or (Number (unit_distance_cost driver)) (Number (cost_per_km driver)))
                     (Fin 1)
              else Math_max (Fin 0) (num_or (Number (cost_per_km driver)) (Fin 1))),
           veh_unit_duration_cost =
             (if hasMultiObjective problemAnalysis
              then num_or (Number (unit_duration_cost driver)) (Fin 0)
              else Fin 0),
           return_to_depot = True,
           work_start_time =
             (if hasWorkingHours problemAnalysis \<and> truthy_str (working_hours_start driver)
              then Some (work_time today (the (working_hours_start driver))) else None),
           work_end_time =
             (if hasWorkingHours problemAnalysis \<and> truthy_str (working_hours_end driver)
              then Some (work_time today (the (working_hours_end driver))) else None),
           visit_preference =
             (if hasPreferences problemAnalysis \<and> preferences \<noteq> [] then Some preferences
              else None) \<rparr>,
          if hasWorkingHours problemAnalysis
          then problemAnalysis \<lparr> hasTimeWindows := True \<rparr> else problemAnalysis))"

fun buildVehicles_from ::
  "string \<Rightarrow> ProblemAnalysis \<Rightarrow> nat \<Rightarrow> Driver list \<Rightarrow> Vehicle list \<times> ProblemAnalysis" where
  "buildVehicles_from today pa i [] = ([], pa)"
| "buildVehicles_from today pa i (d # ds) =
     (case buildVehicle today pa i d of
        (v, pa1) \<Rightarrow>
          (case buildVehicles_from today pa1 (Suc i) ds of
             (vs, pa2) \<Rightarrow> (v # vs, pa2)))"

definition buildVehicles ::
  "string \<Rightarrow> Driver list \<Rightarrow> ProblemAnalysis \<Rightarrow> Vehicle list \<times> ProblemAnalysis" where
  "buildVehicles today drivers problemAnalysis = buildVehicles_from today problemAnalysis 0 drivers"

text \<open>
  \<open>buildApiOptions\<close>. The \<open>default\<close> branch of the switch on the type is not reachable from
  the six types the classifier produces.
\<close>

definition buildApiOptions :: "ProblemAnalysis \<Rightarrow> nat \<Rightarrow> nat \<Rightarrow> Options \<Rightarrow> ApiOption" where
  "buildApiOptions problemAnalysis visitCount vehicleCount options =
     (let tl0 = (case ptype problemAnalysis of
                   TSP \<Rightarrow> Fin 10
                 | CVRP \<Rightarrow> Fin 10
                 | CVRP_Preferences \<Rightarrow> Fin 15
                 | CVRP_Driver_Shifts \<Rightarrow> Fin 20
                 | Multi_Objective_CVRP \<Rightarrow> Fin 20
                 | CVRPTW \<Rightarrow> Fin 30);
          tl = (if truthy_num (Number (timeLimit options)) then Number (timeLimit options) else tl0);
          obj = (if ptype problemAnalysis = TSP \<and> vehicleCount > 1 then minmax
                 else if objective options = Some minmax then minmax
                 else minsum)
      in \<lparr> opt_objective_type = obj,
           timelimit = tl,
           opt_distance_type = (case distanceType options of None \<Rightarrow> euclidean | Some d \<Rightarrow> d),
           allow_unassigned_visits =
             (case allowUnassignedVisits options of
                None \<Rightarrow> isLargeProblem problemAnalysis | Some b \<Rightarrow> b),
           use_large_size_optimization_algorithm = isLargeProblem problemAnalysis,
           include_departure_cost_from_depot = True,
           include_return_cost_to_depot = True \<rparr>)"

definition buildFinalRequest ::
  "OmeletDepot \<Rightarrow> Visit list \<Rightarrow> Vehicle list \<Rightarrow> ApiOption \<Rightarrow> ProblemAnalysis \<Rightarrow> Options
     \<Rightarrow> OmeletRequest" where
  "buildFinalRequest dp vs vhs apiOption problemAnalysis options =
     \<lparr> depot = dp, visits = vs, vehicles = vhs, option = apiOption,
       delivery_start_time =
         (if hasTimeWindows problemAnalysis \<and> truthy_str (deliveryStartTime options)
          then deliveryStartTime options else None) \<rparr>"

text \<open>
  \<open>validateRequest\<close>. \<open>new Date(s)\<close> is a parameter \<open>parseDate\<close>: the time value of the date,
  or \<open>None\<close> for an invalid date, whose time value is \<open>NaN\<close>. The only output besides the
  exception is the \<open>console.warn\<close> of the capacity check, returned as a list of warnings.
  The first check of the source (a missing depot, visits, vehicles or option) cannot fire
  on a request record, whose fields are objects and arrays.
\<close>

datatype warning = DemandExceedsCapacity jsnum jsnum

definition date_ge :: "int option \<Rightarrow> int option \<Rightarrow> bool" where
  "date_ge a b =
     (case a of None \<Rightarrow> False | Some x \<Rightarrow> (case b of None \<Rightarrow> False | Some y \<Rightarrow> x \<ge> y))"

definition totalDemand :: "Visit list \<Rightarrow> jsnum" where
  "totalDemand vs = foldl (\<lambda>sum v. js_add sum (num_or (Number (visit_weight v)) (Fin 0))) (Fin 0) vs"

definition totalCapacity :: "Vehicle list \<Rightarrow> jsnum" where
  "totalCapacity vhs =
     foldl (\<lambda>sum v. js_add sum (num_or (Number (weight_capacity v)) (Fin 0))) (Fin 0) vhs"

definition hasInvalidTimeWindows :: "(string \<Rightarrow> int option) \<Rightarrow> Visit list \<Rightarrow> bool" where
  "hasInvalidTimeWindows parseDate vs =
     list_ex (\<lambda>v. case time_window v of
                     None \<Rightarrow> False
                   | Some (s, e) \<Rightarrow> date_ge (parseDate s) (parseDate e)) vs"

definition capacity_warnings :: "OmeletRequest \<Rightarrow> ProblemAnalysis \<Rightarrow> warning list" where
  "capacity_warnings request problemAnalysis =
     (if hasCapacity problemAnalysis \<and>
         js_gt (totalDemand (visits request)) (totalCapacity (vehicles request))
      then [DemandExceedsCapacity (totalDemand (visits request)) (totalCapacity (vehicles request))]
      else [])"

definition validateRequest ::
  "(string \<Rightarrow> int option) \<Rightarrow> OmeletRequest \<Rightarrow> ProblemAnalysis \<Rightarrow> warning list \<times> (error_code + unit)" where
  "validateRequest parseDate request problemAnalysis =
     (if visits request = [] then ([], Inl NO_VISITS)
      else if vehicles request = [] then ([], Inl NO_VEHICLES)
      else
        (capacity_warnings request problemAnalysis,
         if hasTimeWindows problemAnalysis \<and> hasInvalidTimeWindows parseDate (visits request)
         then Inl INVALID_TIME_WINDOWS else Inr ()))"

text \<open>
  Steps 1 to 3 of \<open>transformToOmeletRequest\<close>: the options with the capacity constraint
  resolved, the explicit option first and the detection on the data otherwise.
\<close>

definition optionsWithCapacity :: "Driver list \<Rightarrow> Order list \<Rightarrow> Options \<Rightarrow> Options" where
  "optionsWithCapacity drivers orders options =
     (let capacityConstraintFromData = shouldEnableCapacityConstraintFromData drivers orders;
          finalCapacityConstraint =
            (case enableCapacityConstraint options of
               None \<Rightarrow> capacityConstraintFromData | Some b \<Rightarrow> b)
      in options \<lparr> enableCapacityConstraint := Some finalCapacityConstraint \<rparr>)"

text \<open>
  \<open>transformToOmeletRequest\<close>: the visits are built from the analysis as the classifier
  returned it, the vehicles next, and everything after the vehicles sees the analysis as
  \<open>buildVehicles\<close> left it.
\<close>

definition transformToOmeletRequest ::
  "string \<Rightarrow> (string \<Rightarrow> int option) \<Rightarrow> Driver list \<Rightarrow> Order list \<Rightarrow> Depot list \<Rightarrow> Options
     \<Rightarrow> warning list \<times> (error_code + OmeletRequest)" where
  "transformToOmeletRequest today parseDate drivers orders depots options =
     (let options' = optionsWithCapacity drivers orders options;
          problemAnalysis = analyzeProblemType drivers orders options'
      in case buildDepot depots drivers of
           Inl e \<Rightarrow> ([], Inl e)
         | Inr dp \<Rightarrow>
             (case buildVisits today orders problemAnalysis of
                Inl e \<Rightarrow> ([], Inl e)
              | Inr vs \<Rightarrow>
                  (case buildVehicles today drivers problemAnalysis of
                     (vhs, problemAnalysis') \<Rightarrow>
                       (let apiOption = buildApiOptions problemAnalysis' (length vs) (length vhs)
                                          options';
                            request = buildFinalRequest dp vs vhs apiOption problemAnalysis'
                                        options'
                        in case validateRequest parseDate request problemAnalysis' of
                             (ws, Inl e) \<Rightarrow> (ws, Inl e)
                           | (ws, Inr _) \<Rightarrow> (ws, Inr request)))))"

section \<open>Result transformer\<close>

record RouteCostDetails =
  objective_cost :: jsnum
  distance_cost :: jsnum
  duration_cost :: jsnum
  route_fixed_cost :: jsnum

record RawRoute =
  raw_vehicle_name :: string
  route_name :: "string list"
  route_cost_details :: RouteCostDetails

record SolutionCostDetails =
  total_objective_cost :: jsnum
  total_distance_cost :: jsnum
  total_duration_cost :: jsnum

record RoutingEngineResult =
  raw_routes :: "RawRoute list"
  unassigned_visit_names :: "string list"
  solution_cost_details :: SolutionCostDetails

datatype solve_status =
  feasible | optimal | infeasible | feasible_with_unassigned_visits | time_limit_exceeded

record OmeletResponse =
  routing_engine_result :: RoutingEngineResult
  status :: solve_status
  detail :: string
  job_id :: string

record RouteVisit =
  visit_name' :: string
  arrival_time :: "string option"
  departure_time :: "string option"

record OmeletRoute =
  vehicle_name :: string
  route_visits :: "RouteVisit list"
  total_distance :: jsnum
  total_duration :: jsnum
  total_cost :: jsnum

record ProcessedOmeletResponse =
  p_status :: solve_status
  routes :: "OmeletRoute list"
  unassigned_visits :: "string list"
  p_total_distance :: jsnum
  p_total_duration :: jsnum
  p_total_cost :: jsnum
  p_detail :: string

text \<open>
  \<open>xs.slice(start, end)\<close>: a negative index counts from the end, and both indices are
  clamped to the array.
\<close>

definition js_slice :: "int \<Rightarrow> int \<Rightarrow> 'a list \<Rightarrow> 'a list" where
  "js_slice start end' xs =
     (let n = int (length xs);
          k = (if start < 0 then max (n + start) 0 else min start n);
          final = (if end' < 0 then max (n + end') 0 else min end' n)
      in take (nat (final - k)) (drop (nat k) xs))"

definition transformRoute :: "RawRoute \<Rightarrow> OmeletRoute" where
  "transformRoute route =
     \<lparr> vehicle_name = raw_vehicle_name route,
       route_visits = map (\<lambda>visitName. \<lparr> visit_name' = visitName, arrival_time = None,
                                          departure_time = None \<rparr>)
                        (js_slice 1 (- 1) (route_name route)),
       total_distance = distance_cost (route_cost_details route),
       total_duration = duration_cost (route_cost_details route),
       total_cost = objective_cost (route_cost_details route) \<rparr>"

definition transformOmeletResponse :: "OmeletResponse \<Rightarrow> ProcessedOmeletResponse" where
  "transformOmeletResponse response =
     (let result = routing_engine_result response
      in \<lparr> p_status = status response,
           routes = map transformRoute (raw_routes result),
           unassigned_visits = unassigned_visit_names result,
           p_total_distance = total_distance_cost (solution_cost_details result),
           p_total_duration = total_duration_cost (solution_cost_details result),
           p_total_cost = total_objective_cost (solution_cost_details result),
           p_detail = detail response \<rparr>)"

section \<open>Error handler\<close>

text \<open>
  The value caught around an API call: a \<open>TMSError\<close> thrown by the client itself, an Axios
  error (with the HTTP status of its response, or no response at all), or anything else.
  Of a \<open>TMSError\<close> the model keeps the code and the suggestions; the message texts are left
  out, and each suggestion text of the source is one constructor.
\<close>

datatype suggestion =
  CheckRequestDataFormat | CheckRequiredFields | CheckDataTypes
| CheckApiKey | CheckEnvApiKey | CheckApiKeyHeader
| CheckApiKeyPermission | CheckRequestQuota
| CheckApiEndpoint | CheckJobId
| CheckHttpMethod
| SetAcceptHeader
| CheckRequestValidity | CheckBusinessConstraints
| RetryLater | UseLongEndpoint
| ContactAdministrator
| CheckNetworkConnection | CheckApiServerStatus

record TMSError =
  code :: error_code
  suggestions :: "suggestion list option"

datatype thrown =
  Thrown_TMSError TMSError
| Thrown_AxiosError "nat option"
| Thrown_Other

text \<open>\<open>handleApiError\<close> never returns: the result is the \<open>TMSError\<close> it throws.\<close>

definition handleApiError :: "thrown \<Rightarrow> TMSError" where
  "handleApiError err =
     (case err of
        Thrown_TMSError e \<Rightarrow> e
      | Thrown_AxiosError st \<Rightarrow>
          (if st = Some 400 then
             \<lparr> code = BAD_REQUEST,
               suggestions = Some [CheckRequestDataFormat, CheckRequiredFields, CheckDataTypes] \<rparr>
           else if st = Some 401 then
             \<lparr> code = UNAUTHORIZED,
               suggestions = Some [CheckApiKey, CheckEnvApiKey, CheckApiKeyHeader] \<rparr>
           else if st = Some 403 then
             \<lparr> code = FORBIDDEN, suggestions = Some [CheckApiKeyPermission, CheckRequestQuota] \<rparr>
           else if st = Some 404 then
             \<lparr> code = NOT_FOUND, suggestions = Some [CheckApiEndpoint, CheckJobId] \<rparr>
           else if st = Some 405 then
             \<lparr> code = METHOD_NOT_ALLOWED, suggestions = Some [CheckHttpMethod] \<rparr>
           else if st = Some 406 then
             \<lparr> code = NOT_ACCEPTABLE, suggestions = Some [SetAcceptHeader] \<rparr>
           else if st = Some 422 then
             \<lparr> code = UNPROCESSABLE_ENTITY,
               suggestions = Some [CheckRequestValidity, CheckBusinessConstraints] \<rparr>
           else if st = Some 429 then
             \<lparr> code = RATE_LIMIT, suggestions = Some [RetryLater, UseLongEndpoint] \<rparr>
           else if st = Some 500 then
             \<lparr> code = SERVER_ERROR, suggestions = Some [RetryLater, ContactAdministrator] \<rparr>
           else
             \<lparr> code = HTTP_ERROR,
               suggestions = Some [CheckNetworkConnection, CheckApiServerStatus] \<rparr>)
      | Thrown_Other \<Rightarrow> \<lparr> code = UNKNOWN_ERROR, suggestions = None \<rparr>)"

section \<open>Endpoint selection\<close>

definition ENDPOINT_VRP :: string where
  "ENDPOINT_VRP = ''/api/vrp''"

definition ENDPOINT_VRP_LONG :: string where
  "ENDPOINT_VRP_LONG = ''/api/vrp-long''"

text \<open>\<open>selectEndpoint\<close> of the API configuration.\<close>

definition selectEndpoint :: "nat \<Rightarrow> nat \<Rightarrow> string" where
  "selectEndpoint orderCount vehicleCount =
     (if orderCount \<ge> 100 \<or> vehicleCount \<ge> 20 then ENDPOINT_VRP_LONG else ENDPOINT_VRP)"

text \<open>
  The two client methods that post a request, with the path each posts to, and the choice
  between them in \<open>handleSolveOptimization\<close>.
\<close>

datatype client_call = optimizeRoutes | optimizeRoutesLong

definition posts_to :: "client_call \<Rightarrow> string" where
  "posts_to c = (case c of optimizeRoutes \<Rightarrow> ''/api/vrp'' | optimizeRoutesLong \<Rightarrow> ''/api/vrp-long'')"

definition handleSolveOptimization_call :: "OmeletRequest \<Rightarrow> client_call" where
  "handleSolveOptimization_call omeletRequest =
     (let isLarge = (length (visits omeletRequest) > 50 \<or> length (vehicles omeletRequest) > 5)
      in if isLarge then optimizeRoutesLong else optimizeRoutes)"

section \<open>Session manager\<close>

datatype WorkflowStep =
  start_project | prepare_data | configure_problem | solve_optimization
| analyze_results | refine_solution | export_results

record StepGuide =
  step :: WorkflowStep
  next_step :: "WorkflowStep option"
  required_data :: "string list option"

text \<open>\<open>WORKFLOW_GUIDES\<close> (titles, descriptions and time estimates left out) and its keys in
  insertion order.\<close>

definition WORKFLOW_GUIDES :: "WorkflowStep \<Rightarrow> StepGuide" where
  "WORKFLOW_GUIDES k =
     (case k of
        start_project \<Rightarrow>
          \<lparr> step = start_project, next_step = Some prepare_data, required_data = None \<rparr>
      | prepare_data \<Rightarrow>
          \<lparr> step = prepare_data, next_step = Some configure_problem,
            required_data = Some [''drivers.csv'', ''orders.csv''] \<rparr>
      | configure_problem \<Rightarrow>
          \<lparr> step = configure_problem, next_step = Some solve_optimization, required_data = None \<rparr>
      | solve_optimization \<Rightarrow>
          \<lparr> step = solve_optimization, next_step = Some analyze_results, required_data = None \<rparr>
      | analyze_results \<Rightarrow>
          \<lparr> step = analyze_results, next_step = Some refine_solution, required_data = None \<rparr>
      | refine_solution \<Rightarrow>
          \<lparr> step = refine_solution, next_step = Some export_results, required_data = None \<rparr>
      | export_results \<Rightarrow>
          \<lparr> step = export_results, next_step = None, required_data = None \<rparr>)"

definition workflow_keys :: "WorkflowStep list" where
  "workflow_keys = [start_project, prepare_data, configure_problem, solve_optimization,
     analyze_results, refine_solution, export_results]"

text \<open>\<open>xs.indexOf(x)\<close>: the first position of \<open>x\<close>, or \<open>-1\<close>.\<close>

fun indexOf_from :: "int \<Rightarrow> 'a list \<Rightarrow> 'a \<Rightarrow> int" where
  "indexOf_from i [] x = - 1"
| "indexOf_from i (y # ys) x = (if y = x then i else indexOf_from (i + 1) ys x)"

definition indexOf :: "'a list \<Rightarrow> 'a \<Rightarrow> int" where
  "indexOf xs x = indexOf_from 0 xs x"

text \<open>
  A project session, without the optional \<open>config\<close> and \<open>last_result\<close>, which the functions
  below do not touch; its field \<open>id\<close> is \<open>session_id\<close> here. The session files are a map
  from session identifiers to sessions; \<open>now\<close> is the time stamp \<open>saveSession\<close> writes.
\<close>

record ProjectSession =
  session_id :: string
  session_name :: string
  created_at :: string
  updated_at :: string
  current_step :: int
  steps_completed :: "WorkflowStep list"
  drivers_loaded :: bool
  orders_loaded :: bool
  depots_loaded :: bool
  validation_passed :: bool
  files_processed :: "string list"

type_synonym session_store = "string \<rightharpoonup> ProjectSession"

datatype session_error = Session_not_found

definition saveSession :: "string \<Rightarrow> session_store \<Rightarrow> ProjectSession \<Rightarrow> session_store" where
  "saveSession now store session = store (session_id session \<mapsto> session \<lparr> updated_at := now \<rparr>)"

definition loadSession :: "session_store \<Rightarrow> string \<Rightarrow> ProjectSession option" where
  "loadSession store sessionId = store sessionId"

definition completeStep ::
  "string \<Rightarrow> session_store \<Rightarrow> string \<Rightarrow> WorkflowStep \<Rightarrow> session_error + session_store" where
  "completeStep now store sessionId st =
     (case loadSession store sessionId of
        None \<Rightarrow> Inl Session_not_found
      | Some session \<Rightarrow>
          (let s1 = (if st \<in> set (steps_completed session) then session
                     else session \<lparr> steps_completed := steps_completed session @ [st] \<rparr>);
               stepIndex = indexOf workflow_keys st;
               s2 = (if stepIndex \<ge> current_step s1 then s1 \<lparr> current_step := stepIndex + 1 \<rparr>
                     else s1)
           in Inr (saveSession now store s2)))"

text \<open>
  \<open>getNextStep\<close>: \<open>None\<close> is the \<open>null\<close> of a finished workflow, and also the \<open>undefined\<close> that
  indexing the keys with a negative \<open>current_step\<close> gives.
\<close>

definition getNextStep :: "ProjectSession \<Rightarrow> StepGuide option" where
  "getNextStep session =
     (let totalSteps = int (length workflow_keys)
      in if current_step session \<ge> totalSteps then None
         else if current_step session < 0 then None
         else Some (WORKFLOW_GUIDES (workflow_keys ! nat (current_step session))))"

section \<open>A reading of date-time strings\<close>

text \<open>
  \<open>new Date(s)\<close> on a string is the date parser of the JavaScript engine, which is not part of
  the repository; \<open>validateRequest\<close> takes it as the parameter \<open>parseDate\<close>, the time value
  in milliseconds since the epoch or nothing for an invalid date. \<open>dateMs\<close> below follows
  the parser of V8, the engine of Node.js. Its first stage reads the date-time string format
  of ECMAScript,

    \<open>YYYY[-MM[-DD]]\<close> or \<open>\<plusminus>YYYYYY[-MM[-DD]]\<close>, then optionally
    \<open>THH:mm[:ss[.fraction]]\<close> followed by nothing, by \<open>Z\<close> or by an offset \<open>\<plusminus>hh:mm\<close> or \<open>\<plusminus>hhmm\<close>,

  and comes to one of three ends: the string is read; the string is an invalid date (the
  time part, once begun by \<open>T\<close>, is malformed); or the string is left to the second stage,
  which reads other formats in ways that ECMAScript does not define. The second stage is the
  parameter \<open>legacy\<close> of \<open>dateMs\<close>. A date with a time and without \<open>Z\<close> or an offset is a
  local time: the conversion of the host from a local time value to a time value is the
  parameter \<open>toUTC\<close>.
\<close>

definition digit_of :: "char \<Rightarrow> nat option" where
  "digit_of c = (let n = (of_char c :: nat) in if 48 \<le> n \<and> n \<le> 57 then Some (n - 48) else None)"

fun dec_from :: "nat \<Rightarrow> string \<Rightarrow> nat option" where
  "dec_from acc [] = Some acc"
| "dec_from acc (c # cs) =
     (case digit_of c of None \<Rightarrow> None | Some d \<Rightarrow> dec_from (10 * acc + d) cs)"

definition dec :: "string \<Rightarrow> nat option" where
  "dec s = (if s = [] then None else dec_from 0 s)"

definition is_leap :: "nat \<Rightarrow> bool" where
  "is_leap y = (y mod 4 = 0 \<and> (y mod 100 \<noteq> 0 \<or> y mod 400 = 0))"

definition days_in_month :: "nat \<Rightarrow> nat \<Rightarrow> nat" where
  "days_in_month y m =
     (if m = 2 then (if is_leap y then 29 else 28)
      else if m = 4 \<or> m = 6 \<or> m = 9 \<or> m = 11 then 30 else 31)"

text \<open>
  The number of days from 1970-01-01 to a date of the proleptic Gregorian calendar. A day
  number beyond the end of the month counts on into the next month, as \<open>MakeDay\<close> does.
\<close>

definition days_from_civil :: "int \<Rightarrow> nat \<Rightarrow> nat \<Rightarrow> int" where
  "days_from_civil y m d =
     (let y' = (if m \<le> 2 then y - 1 else y);
          era = y' div 400;
          yoe = y' - era * 400;
          mp = (if m > 2 then int m - 3 else int m + 9);
          doy = (153 * mp + 2) div 5 + int d - 1;
          doe = yoe * 365 + yoe div 4 - yoe div 100 + doy
      in era * 146097 + doe - 719468)"

definition time_ms :: "nat \<Rightarrow> nat \<Rightarrow> nat \<Rightarrow> int" where
  "time_ms h mi se = ((int h * 60 + int mi) * 60 + int se) * 1000"

text \<open>
  The scanner. A number token is a maximal run of decimal digits, and the format asks for
  numbers of a fixed count of digits; a word token is a maximal run of characters from \<open>A\<close>
  upwards that are not white space.
\<close>

definition is_digit :: "char \<Rightarrow> bool" where
  "is_digit c = (digit_of c \<noteq> None)"

definition is_word_char :: "char \<Rightarrow> bool" where
  "is_word_char c = (65 \<le> (of_char c :: nat) \<and> (of_char c :: nat) \<noteq> 160)"

definition fixed_number :: "nat \<Rightarrow> string \<Rightarrow> (nat \<times> string) option" where
  "fixed_number n s =
     (let ds = takeWhile is_digit s
      in if length ds = n then map_option (\<lambda>v. (v, dropWhile is_digit s)) (dec ds) else None)"

definition skip_symbol :: "char \<Rightarrow> string \<Rightarrow> string option" where
  "skip_symbol c s = (case s of [] \<Rightarrow> None | x # r \<Rightarrow> if x = c then Some r else None)"

text \<open>
  The date part: a year of four digits, or of six digits after a sign (but not \<open>-000000\<close>),
  then optionally a month from 01 to 12 and a day from 01 to 31. \<open>None\<close> leaves the string to
  the second stage.
\<close>

definition read_year :: "string \<Rightarrow> (int \<times> string) option" where
  "read_year s =
     (case s of [] \<Rightarrow> None
      | c # r \<Rightarrow>
          if c = CHR ''+'' \<or> c = CHR ''-''
          then (case fixed_number 6 r of None \<Rightarrow> None
                | Some (y, r') \<Rightarrow>
                    if c = CHR ''-'' \<and> y = 0 then None
                    else Some (if c = CHR ''-'' then - int y else int y, r'))
          else map_option (\<lambda>(y, r'). (int y, r')) (fixed_number 4 s))"

definition read_date :: "string \<Rightarrow> ((int \<times> nat \<times> nat) \<times> string) option" where
  "read_date s =
     (case read_year s of None \<Rightarrow> None
      | Some (y, r) \<Rightarrow>
         (case skip_symbol CHR ''-'' r of None \<Rightarrow> Some ((y, 1, 1), r)
          | Some r1 \<Rightarrow>
             (case fixed_number 2 r1 of None \<Rightarrow> None
              | Some (m, r2) \<Rightarrow>
                 if \<not> (1 \<le> m \<and> m \<le> 12) then None
                 else (case skip_symbol CHR ''-'' r2 of None \<Rightarrow> Some ((y, m, 1), r2)
                       | Some r3 \<Rightarrow>
                          (case fixed_number 2 r3 of None \<Rightarrow> None
                           | Some (d, r4) \<Rightarrow>
                              if \<not> (1 \<le> d \<and> d \<le> 31) then None
                              else Some ((y, m, d), r4))))))"

text \<open>
  The fraction of a second: of the digits after the point the scanner keeps the first nine
  significant ones, and the first three of the digits read are the milliseconds.
\<close>

definition read_milliseconds :: "string \<Rightarrow> nat" where
  "read_milliseconds ds =
     (let number = (case dec (take 9 (dropWhile (\<lambda>c. c = CHR ''0'') ds)) of
                      None \<Rightarrow> 0 | Some n \<Rightarrow> n);
          len = length ds
      in if len = 1 then number * 100
         else if len = 2 then number * 10
         else if 3 < len then number div 10 ^ (min len 9 - 3)
         else number)"

text \<open>
  The time part after \<open>T\<close>: hours from 00 to 24 and minutes, then optionally seconds, then
  optionally a fraction; the hour 24 only with zeros after it. \<open>None\<close> is an invalid date.
\<close>

definition read_time :: "string \<Rightarrow> ((nat \<times> nat \<times> nat \<times> nat) \<times> string) option" where
  "read_time s =
     (case fixed_number 2 s of None \<Rightarrow> None
      | Some (h, r) \<Rightarrow>
         if 24 < h then None
         else (case skip_symbol CHR '':'' r of None \<Rightarrow> None
               | Some r1 \<Rightarrow>
                  (case fixed_number 2 r1 of None \<Rightarrow> None
                   | Some (mi, r2) \<Rightarrow>
                      if 59 < mi \<or> (h = 24 \<and> 0 < mi) then None
                      else (case skip_symbol CHR '':'' r2 of None \<Rightarrow> Some ((h, mi, 0, 0), r2)
                            | Some r3 \<Rightarrow>
                               (case fixed_number 2 r3 of None \<Rightarrow> None
                                | Some (se, r4) \<Rightarrow>
                                   if 59 < se \<or> (h = 24 \<and> 0 < se) then None
                                   else (case skip_symbol CHR ''.'' r4 of
                                           None \<Rightarrow> Some ((h, mi, se, 0), r4)
                                         | Some r5 \<Rightarrow>
                                            (let ds = takeWhile is_digit r5
                                             in if ds = [] \<or>
                                                   (h = 24 \<and> list_ex (\<lambda>c. c \<noteq> CHR ''0'') ds)
                                                then None
                                                else Some ((h, mi, se, read_milliseconds ds),
                                                           dropWhile is_digit r5))))))))"

text \<open>
  The rest of the string after the time: nothing (a local time), \<open>Z\<close>, or an offset, whose
  value is in minutes. \<open>None\<close> is an invalid date.
\<close>

definition read_zone :: "string \<Rightarrow> int option option" where
  "read_zone s =
     (case s of [] \<Rightarrow> Some None
      | c # r \<Rightarrow>
          if s = ''Z'' \<or> s = ''z'' then Some (Some 0)
          else if c = CHR ''+'' \<or> c = CHR ''-''
          then (let sign = (if c = CHR ''+'' then 1 else - 1)
                in case fixed_number 4 r of
                     Some (hm, r') \<Rightarrow>
                       if hm div 100 \<le> 23 \<and> hm mod 100 \<le> 59 \<and> r' = []
                       then Some (Some (sign * int (60 * (hm div 100) + hm mod 100)))
                       else None
                   | None \<Rightarrow>
                       (case fixed_number 2 r of None \<Rightarrow> None
                        | Some (h, r1) \<Rightarrow>
                           if 23 < h then None
                           else (case skip_symbol CHR '':'' r1 of None \<Rightarrow> None
                                 | Some r2 \<Rightarrow>
                                    (case fixed_number 2 r2 of None \<Rightarrow> None
                                     | Some (m, r3) \<Rightarrow>
                                        if 59 < m \<or> r3 \<noteq> [] then None
                                        else Some (Some (sign * int (60 * h + m)))))))
          else None)"

text \<open>The word \<open>T\<close> or \<open>t\<close> on its own, which begins the time part.\<close>

definition time_separator :: "string \<Rightarrow> bool" where
  "time_separator s =
     (case s of [] \<Rightarrow> False
      | c # r \<Rightarrow> (c = CHR ''T'' \<or> c = CHR ''t'') \<and>
                 (case r of [] \<Rightarrow> True | x # _ \<Rightarrow> \<not> is_word_char x))"

datatype reading = Reads int | Invalid_Date | Unhandled

definition parseES5DateTime :: "(int \<Rightarrow> int option) \<Rightarrow> string \<Rightarrow> reading" where
  "parseES5DateTime toUTC s =
     (case read_date s of None \<Rightarrow> Unhandled
      | Some ((y, m, d), r) \<Rightarrow>
          if r = [] then Reads (days_from_civil y m d * 86400000)
          else if \<not> time_separator r then Unhandled
          else (case read_time (tl r) of None \<Rightarrow> Invalid_Date
                | Some ((h, mi, se, ms), r') \<Rightarrow>
                   (case read_zone r' of None \<Rightarrow> Invalid_Date
                    | Some z \<Rightarrow>
                       (let t = days_from_civil y m d * 86400000 + time_ms h mi se + int ms
                        in case z of
                             Some off \<Rightarrow> Reads (t - off * 60000)
                           | None \<Rightarrow> (case toUTC t of None \<Rightarrow> Invalid_Date
                                       | Some u \<Rightarrow> Reads u)))))"

text \<open>A time value is at most 100 000 000 days from the epoch.\<close>

definition TimeClip :: "int \<Rightarrow> int option" where
  "TimeClip t = (if \<bar>t\<bar> \<le> 8640000000000000 then Some t else None)"

definition dateMs ::
  "(string \<Rightarrow> int option) \<Rightarrow> (int \<Rightarrow> int option) \<Rightarrow> string \<Rightarrow> int option" where
  "dateMs legacy toUTC s =
     (case parseES5DateTime toUTC s of
        Reads t \<Rightarrow> TimeClip t
      | Invalid_Date \<Rightarrow> None
      | Unhandled \<Rightarrow> legacy s)"

text \<open>
  To run the builder on examples, the parser is instantiated with \<open>isoDateMs\<close>: the host is
  in the time zone UTC, and a string that the first stage leaves to the second is an invalid
  date. The strings of the examples are all decided by the first stage and carry \<open>Z\<close>.
\<close>

definition isoDateMs :: "string \<Rightarrow> int option" where
  "isoDateMs s = dateMs (\<lambda>s. None) Some s"

text \<open>The next character, if any, is not a digit: a number token ends here.\<close>

definition no_digit_ahead :: "string \<Rightarrow> bool" where
  "no_digit_ahead r = (case r of [] \<Rightarrow> True | c # _ \<Rightarrow> \<not> is_digit c)"

text \<open>
  Well-formed input for the normalisation: a bound \<open>HH:MM\<close> with its minutes since
  midnight, a calendar date \<open>YYYY-MM-DD\<close> with its day number, the minutes of the two
  bounds of an order whose window is given in the form \<open>HH:MM\<close>, and the test that
  \<open>validateRequest\<close> applies to one visit.
\<close>

definition hhmm_minutes :: "string \<Rightarrow> nat option" where
  "hhmm_minutes t =
     (if length t = 5 \<and> t ! 2 = CHR '':''
      then (case dec (take 2 t) of None \<Rightarrow> None | Some h \<Rightarrow>
            case dec (drop 3 t) of None \<Rightarrow> None | Some m \<Rightarrow>
              if h \<le> 23 \<and> m \<le> 59 then Some (h * 60 + m) else None)
      else None)"

definition date_days :: "string \<Rightarrow> int option" where
  "date_days d =
     (if length d = 10 \<and> d ! 4 = CHR ''-'' \<and> d ! 7 = CHR ''-''
      then (case dec (take 4 d) of None \<Rightarrow> None | Some y \<Rightarrow>
            case dec (take 2 (drop 5 d)) of None \<Rightarrow> None | Some m \<Rightarrow>
            case dec (drop 8 d) of None \<Rightarrow> None | Some dd \<Rightarrow>
              if 1 \<le> m \<and> m \<le> 12 \<and> 1 \<le> dd \<and> dd \<le> days_in_month y m
              then Some (days_from_civil (int y) m dd) else None)
      else None)"


definition window_minutes :: "Order \<Rightarrow> (nat \<times> nat) option" where
  "window_minutes ord =
     (case time_window_start ord of None \<Rightarrow> None | Some s \<Rightarrow>
      case time_window_end ord of None \<Rightarrow> None | Some e \<Rightarrow>
      case hhmm_minutes s of None \<Rightarrow> None | Some a \<Rightarrow>
      case hhmm_minutes e of None \<Rightarrow> None | Some b \<Rightarrow> Some (a, b))"

definition invalid_window :: "(string \<Rightarrow> int option) \<Rightarrow> Visit \<Rightarrow> bool" where
  "invalid_window parseDate v =
     (case time_window v of None \<Rightarrow> False
      | Some (s, e) \<Rightarrow> date_ge (parseDate s) (parseDate e))"


section \<open>The precedence list of the specification\<close>

text \<open>
  The precedence list for the variant tag as the specification words it: the rules in their
  order, each with its tag, and the tag of the first rule that matches.
\<close>

definition variant_rules :: "nat \<Rightarrow> ProblemAnalysis \<Rightarrow> (bool \<times> problem_type) list" where
  "variant_rules ndrivers pa =
     [ (ndrivers = 1 \<and> \<not> hasCapacity pa \<and> \<not> hasTimeWindows pa, TSP),
       (hasCapacity pa \<and> \<not> hasTimeWindows pa \<and> \<not> hasWorkingHours pa \<and> \<not> hasPreferences pa, CVRP),
       (hasCapacity pa \<and> hasTimeWindows pa, CVRPTW),
       (hasCapacity pa \<and> hasWorkingHours pa \<and> \<not> hasTimeWindows pa, CVRP_Driver_Shifts),
       (hasPreferences pa \<or> hasDiverseVehicleTypes pa, CVRP_Preferences),
       (hasMultiObjective pa, Multi_Objective_CVRP),
       (ndrivers > 1, CVRP) ]"

definition first_match :: "(bool \<times> 'a) list \<Rightarrow> 'a option" where
  "first_match rules = map_option snd (find fst rules)"


text \<open>The HTTP status codes that \<open>handleApiError\<close> has a case for.\<close>

definition recognized_statuses :: "nat list" where
  "recognized_statuses = [400, 401, 403, 404, 405, 406, 422, 429, 500]"

section \<open>Sample data\<close>

text \<open>A driver and an order with no optional data, from which the examples are built.\<close>

definition sample_driver :: Driver where
  "sample_driver = \<lparr> name = Some ''D1'', start_location_lat = Some (Fin 37),
     start_location_lng = Some (Fin 127), capacity = None, volume_capacity = None,
     working_hours_start = None, working_hours_end = None, cost_per_km = None,
     vehicle_type = None, fixed_cost = None, unit_distance_cost = None,
     unit_duration_cost = None, visit_preference_1 = None, visit_preference_2 = None,
     visit_preference_3 = None, visit_preference_4 = None \<rparr>"

definition sample_order :: Order where
  "sample_order = \<lparr> order_id = Some ''O1'', delivery_lat = Some (Fin 37),
     delivery_lng = Some (Fin 127), weight = None, volume = None, time_window_start = None,
     time_window_end = None, priority = None, service_time = None \<rparr>"

definition sample_visit :: Visit where
  "sample_visit = \<lparr> visit_name = ''O1'', visit_coordinate = \<lparr> c_lng = Fin 127, c_lat = Fin 37 \<rparr>,
     visit_weight = None, visit_volume = None, unassigned_penalty = None, time_window = None,
     visit_service_time = None \<rparr>"

definition sample_vehicle :: Vehicle where
  "sample_vehicle = \<lparr> veh_name = ''D1'', veh_vehicle_type = ''car'', weight_capacity = None,
     veh_volume_capacity = None, veh_fixed_cost = Fin 0, veh_unit_distance_cost = Fin 1,
     veh_unit_duration_cost = Fin 0, return_to_depot = True, work_start_time = None,
     work_end_time = None, visit_preference = None \<rparr>"

definition sample_request :: "nat \<Rightarrow> nat \<Rightarrow> OmeletRequest" where
  "sample_request nvisits nvehicles =
     \<lparr> depot = \<lparr> od_name = ''Main Depot'', od_coordinate = \<lparr> c_lng = Fin 127, c_lat = Fin 37 \<rparr> \<rparr>,
       visits = replicate nvisits sample_visit,
       vehicles = replicate nvehicles sample_vehicle,
       option = \<lparr> opt_objective_type = minsum, timelimit = Fin 10, opt_distance_type = euclidean,
                  allow_unassigned_visits = False, use_large_size_optimization_algorithm = False,
                  include_departure_cost_from_depot = True, include_return_cost_to_depot = True \<rparr>,
       delivery_start_time = None \<rparr>"

definition sample_session :: ProjectSession where
  "sample_session = \<lparr> session_id = ''p1'', session_name = ''project'', created_at = ''t0'',
     updated_at = ''t0'', current_step = 1, steps_completed = [start_project],
     drivers_loaded = False, orders_loaded = False, depots_loaded = False,
     validation_passed = False, files_processed = [] \<rparr>"

definition sample_response :: "string \<Rightarrow> OmeletResponse" where
  "sample_response dp =
     \<lparr> routing_engine_result =
         \<lparr> raw_routes = [\<lparr> raw_vehicle_name = ''D1'', route_name = [dp, ''A'', ''B'', dp],
               route_cost_details = \<lparr> objective_cost = Fin 12, distance_cost = Fin 7,
                 duration_cost = Fin 5, route_fixed_cost = Fin 0 \<rparr> \<rparr>],
           unassigned_visit_names = [''C''],
           solution_cost_details = \<lparr> total_objective_cost = Fin 12, total_distance_cost = Fin 7,
             total_duration_cost = Fin 5 \<rparr> \<rparr>,
       status = optimal, detail = ''ok'', job_id = ''j1'' \<rparr>"

section \<open>Properties of the classifier\<close>

lemma analyze_fields:
  "ptype (analyzeProblemType drivers orders options) =
     fst (classify (length drivers)
        (hasCapacity (analyzeProblemType drivers orders options))
        (hasTimeWindows (analyzeProblemType drivers orders options))
        (hasWorkingHours (analyzeProblemType drivers orders options))
        (hasPreferences (analyzeProblemType drivers orders options))
        (hasMultiObjective (analyzeProblemType drivers orders options))
        (hasDiverseVehicleTypes (analyzeProblemType drivers orders options)))"
  by (simp add: analyzeProblemType_def Let_def)

lemma classify_first_match:
  "first_match (variant_rules n pa) = Some t \<Longrightarrow>
   fst (classify n (hasCapacity pa) (hasTimeWindows pa) (hasWorkingHours pa) (hasPreferences pa)
      (hasMultiObjective pa) (hasDiverseVehicleTypes pa)) = t"
  by (auto simp: first_match_def variant_rules_def classify_def split: if_splits)

lemma analyzeProblemType_no_rule:
  "first_match (variant_rules (length drivers) (analyzeProblemType drivers orders options)) = None
   \<Longrightarrow> ptype (analyzeProblemType drivers orders options) = TSP"
  by (subst analyze_fields)
     (auto simp: first_match_def variant_rules_def classify_def split: if_splits)

lemma hasCapacity_no_override:
  "enableCapacityConstraint options = None \<Longrightarrow>
   hasCapacity (analyzeProblemType drivers orders options) =
     ((\<exists>d \<in> set drivers. js_gt (Number (capacity d)) (Fin 0)) \<or>
      (\<exists>ord \<in> set orders. js_gt (Number (weight ord)) (Fin 0) \<or> js_gt (Number (volume ord)) (Fin 0)))"
  by (simp add: analyzeProblemType_def Let_def list_ex_iff)

lemma hasCapacity_override:
  "enableCapacityConstraint options = Some b \<Longrightarrow>
   hasCapacity (analyzeProblemType drivers orders options) = b"
  by (simp add: analyzeProblemType_def Let_def)

lemma hasTimeWindows_eq:
  "hasTimeWindows (analyzeProblemType drivers orders options) =
     (enableTimeWindowConstraint options = Some True \<or>
      (\<exists>ord \<in> set orders. truthy_str (time_window_start ord) \<and> truthy_str (time_window_end ord)))"
  by (simp add: analyzeProblemType_def Let_def list_ex_iff)

lemma hasWorkingHours_eq:
  "hasWorkingHours (analyzeProblemType drivers orders options) =
     (\<exists>d \<in> set drivers. truthy_str (working_hours_start d) \<or> truthy_str (working_hours_end d))"
  by (simp add: analyzeProblemType_def Let_def list_ex_iff)

lemma optionsWithCapacity_timeWindow:
  "enableTimeWindowConstraint (optionsWithCapacity drivers orders options) =
   enableTimeWindowConstraint options"
  by (simp add: optionsWithCapacity_def Let_def)

lemmas sample_defs = sample_driver_def sample_order_def no_options_def

lemmas analyze_eval = analyzeProblemType_def classify_def Let_def Number_def js_gt_def
  truthy_str_def str_or_def first_match_def variant_rules_def

text \<open>
  Claim C1. For every list of drivers and orders the classifier takes the type from the
  first rule that matches in the precedence list: a single driver with no capacity and no
  time windows gives TSP; capacity with no time windows, no working hours and no
  preferences gives CVRP; capacity with time windows gives CVRPTW; capacity with working
  hours (no time windows) gives CVRP_Driver_Shifts; preferences or diverse vehicle types
  give CVRP_Preferences; multi-objective cost fields give Multi_Objective_CVRP; several
  drivers matching none of these give CVRP. One driver and five orders with no capacity or
  time data anywhere give TSP with \<open>hasCapacity\<close> and \<open>hasTimeWindows\<close> false.
\<close>

theorem analyzeProblemType_first_matching_rule:
  "(first_match (variant_rules (length drivers) (analyzeProblemType drivers orders options)) = Some t
      \<longrightarrow> ptype (analyzeProblemType drivers orders options) = t) \<and>
   (length drivers = 1 \<and> length orders = 5 \<and>
    enableCapacityConstraint options = None \<and> enableTimeWindowConstraint options = None \<and>
    (\<forall>d \<in> set drivers. capacity d = None) \<and>
    (\<forall>ord \<in> set orders. weight ord = None \<and> volume ord = None \<and>
        time_window_start ord = None \<and> time_window_end ord = None)
      \<longrightarrow> ptype (analyzeProblemType drivers orders options) = TSP \<and>
          \<not> hasCapacity (analyzeProblemType drivers orders options) \<and>
          \<not> hasTimeWindows (analyzeProblemType drivers orders options))"
proof -
  let ?pa = "analyzeProblemType drivers orders options"
  have A: "ptype ?pa = t" if "first_match (variant_rules (length drivers) ?pa) = Some t"
    using classify_first_match [OF that] by (simp add: analyze_fields [symmetric])
  have B: "ptype ?pa = TSP \<and> \<not> hasCapacity ?pa \<and> \<not> hasTimeWindows ?pa"
    if h: "length drivers = 1 \<and> length orders = 5 \<and>
      enableCapacityConstraint options = None \<and> enableTimeWindowConstraint options = None \<and>
      (\<forall>d \<in> set drivers. capacity d = None) \<and>
      (\<forall>ord \<in> set orders. weight ord = None \<and> volume ord = None \<and>
          time_window_start ord = None \<and> time_window_end ord = None)"
  proof -
    have c: "\<not> hasCapacity ?pa"
      using h by (simp add: hasCapacity_no_override Number_def js_gt_def)
    have w: "\<not> hasTimeWindows ?pa"
      using h by (simp add: hasTimeWindows_eq truthy_str_def)
    have "ptype ?pa = TSP"
      using h c w by (subst analyze_fields) (simp add: classify_def)
    with c w show ?thesis by simp
  qed
  from A B show ?thesis by blast
qed

text \<open>One input for each rule of the list, the first being the scenario of the claim.\<close>

theorem analyzeProblemType_first_matching_rule_witness:
  "(ptype (analyzeProblemType [sample_driver] (replicate 5 sample_order) no_options) = TSP \<and>
    \<not> hasCapacity (analyzeProblemType [sample_driver] (replicate 5 sample_order) no_options) \<and>
    \<not> hasTimeWindows (analyzeProblemType [sample_driver] (replicate 5 sample_order) no_options)) \<and>
   ptype (analyzeProblemType [sample_driver\<lparr>capacity := Some (Fin 1000)\<rparr>]
            [sample_order\<lparr>weight := Some (Fin 100)\<rparr>] no_options) = CVRP \<and>
   ptype (analyzeProblemType [sample_driver\<lparr>capacity := Some (Fin 1000)\<rparr>]
            [sample_order\<lparr>time_window_start := Some ''09:00'', time_window_end := Some ''12:00''\<rparr>]
            no_options) = CVRPTW \<and>
   ptype (analyzeProblemType
            [sample_driver\<lparr>capacity := Some (Fin 1000), working_hours_start := Some ''09:00''\<rparr>]
            [sample_order] no_options) = CVRP_Driver_Shifts \<and>
   ptype (analyzeProblemType [sample_driver, sample_driver\<lparr>vehicle_type := Some ''bike''\<rparr>]
            [sample_order] no_options) = CVRP_Preferences \<and>
   ptype (analyzeProblemType [sample_driver, sample_driver\<lparr>fixed_cost := Some (Fin 10)\<rparr>]
            [sample_order] no_options) = Multi_Objective_CVRP \<and>
   ptype (analyzeProblemType [sample_driver, sample_driver] [sample_order] no_options) = CVRP"
proof -
  have w1: "ptype (analyzeProblemType [sample_driver] (replicate 5 sample_order) no_options) = TSP \<and>
    \<not> hasCapacity (analyzeProblemType [sample_driver] (replicate 5 sample_order) no_options) \<and>
    \<not> hasTimeWindows (analyzeProblemType [sample_driver] (replicate 5 sample_order) no_options)"
    using analyzeProblemType_first_matching_rule [of "[sample_driver]" "replicate 5 sample_order" no_options TSP]
    by (simp add: sample_defs)
  have w2: "ptype (analyzeProblemType [sample_driver\<lparr>capacity := Some (Fin 1000)\<rparr>]
            [sample_order\<lparr>weight := Some (Fin 100)\<rparr>] no_options) = CVRP"
    using analyzeProblemType_first_matching_rule [of "[sample_driver\<lparr>capacity := Some (Fin 1000)\<rparr>]"
                 "[sample_order\<lparr>weight := Some (Fin 100)\<rparr>]" no_options CVRP]
    by (simp add: sample_defs analyze_eval)
  have w3: "ptype (analyzeProblemType [sample_driver\<lparr>capacity := Some (Fin 1000)\<rparr>]
            [sample_order\<lparr>time_window_start := Some ''09:00'', time_window_end := Some ''12:00''\<rparr>]
            no_options) = CVRPTW"
    using analyzeProblemType_first_matching_rule [of "[sample_driver\<lparr>capacity := Some (Fin 1000)\<rparr>]"
       "[sample_order\<lparr>time_window_start := Some ''09:00'', time_window_end := Some ''12:00''\<rparr>]"
       no_options CVRPTW]
    by (simp add: sample_defs analyze_eval)
  have w4: "ptype (analyzeProblemType
            [sample_driver\<lparr>capacity := Some (Fin 1000), working_hours_start := Some ''09:00''\<rparr>]
            [sample_order] no_options) = CVRP_Driver_Shifts"
    using analyzeProblemType_first_matching_rule [of "[sample_driver\<lparr>capacity := Some (Fin 1000), working_hours_start := Some ''09:00''\<rparr>]"
       "[sample_order]" no_options CVRP_Driver_Shifts]
    by (simp add: sample_defs analyze_eval)
  have w5: "ptype (analyzeProblemType [sample_driver, sample_driver\<lparr>vehicle_type := Some ''bike''\<rparr>]
            [sample_order] no_options) = CVRP_Preferences"
    using analyzeProblemType_first_matching_rule [of "[sample_driver, sample_driver\<lparr>vehicle_type := Some ''bike''\<rparr>]"
       "[sample_order]" no_options CVRP_Preferences]
    by (simp add: sample_defs analyze_eval)
  have w6: "ptype (analyzeProblemType [sample_driver, sample_driver\<lparr>fixed_cost := Some (Fin 10)\<rparr>]
            [sample_order] no_options) = Multi_Objective_CVRP"
    using analyzeProblemType_first_matching_rule [of "[sample_driver, sample_driver\<lparr>fixed_cost := Some (Fin 10)\<rparr>]"
       "[sample_order]" no_options Multi_Objective_CVRP]
    by (simp add: sample_defs analyze_eval)
  have w7: "ptype (analyzeProblemType [sample_driver, sample_driver] [sample_order] no_options) = CVRP"
    using analyzeProblemType_first_matching_rule [of "[sample_driver, sample_driver]" "[sample_order]" no_options CVRP]
    by (simp add: sample_defs analyze_eval)
  from w1 w2 w3 w4 w5 w6 w7 show ?thesis by blast
qed

text \<open>
  The request builder resolves the capacity constraint before it calls the classifier, so
  the classifier always sees an override there: the explicit option, or else the detection
  on the raw data, which also looks at the volume capacity of the drivers. The detection
  inside the classifier, which looks at the capacity of the drivers and the weight and volume
  of the orders only, is never reached from the builder.
\<close>

lemma js_gt_num_or_zero: "js_gt (num_or x (Fin 0)) (Fin 0) = js_gt x (Fin 0)"
  by (cases x) (auto simp: js_gt_def num_or_def truthy_num_def)

lemma shouldEnableCapacityConstraintFromData_eq:
  "shouldEnableCapacityConstraintFromData drivers orders =
     ((\<exists>ord \<in> set orders. js_gt (Number (volume ord)) (Fin 0) \<or>
                             js_gt (Number (weight ord)) (Fin 0)) \<or>
      (\<exists>d \<in> set drivers. js_gt (Number (volume_capacity d)) (Fin 0) \<or>
                            js_gt (Number (capacity d)) (Fin 0)))"
  by (simp add: shouldEnableCapacityConstraintFromData_def Let_def list_ex_iff js_gt_num_or_zero)

lemma builder_hasCapacity:
  "hasCapacity (analyzeProblemType drivers orders (optionsWithCapacity drivers orders options)) =
     (case enableCapacityConstraint options of
        Some b \<Rightarrow> b
      | None \<Rightarrow> shouldEnableCapacityConstraintFromData drivers orders)"
  by (simp add: analyzeProblemType_def optionsWithCapacity_def Let_def split: option.splits)

lemma builder_hasCapacity_no_override:
  "enableCapacityConstraint options = None \<Longrightarrow>
   hasCapacity (analyzeProblemType drivers orders (optionsWithCapacity drivers orders options)) =
     ((\<exists>ord \<in> set orders. js_gt (Number (volume ord)) (Fin 0) \<or>
                             js_gt (Number (weight ord)) (Fin 0)) \<or>
      (\<exists>d \<in> set drivers. js_gt (Number (volume_capacity d)) (Fin 0) \<or>
                            js_gt (Number (capacity d)) (Fin 0)))"
  by (simp add: builder_hasCapacity shouldEnableCapacityConstraintFromData_eq)

text \<open>
  Claim C2, as stated: with no capacity override, every order of weight 0 and volume 0 and
  every driver of capacity 0, the \<open>hasCapacity\<close> flag of the classification is false. It is
  true in the request builder for one such driver whose volume capacity is 5: the builder
  takes the flag from \<open>shouldEnableCapacityConstraintFromData\<close>, which counts the volume
  capacity of a driver, and the classifier returns what it is given. The vehicle of the built
  request then carries the two capacities and the visit its weight and volume, which
  \<open>buildVehicles\<close> and \<open>buildVisits\<close> attach when the flag is set.
\<close>

theorem volume_capacity_sets_hasCapacity:
  "enableCapacityConstraint no_options = None \<and>
   map capacity [sample_driver\<lparr>capacity := Some (Fin 0), volume_capacity := Some (Fin 5)\<rparr>]
     = [Some (Fin 0)] \<and>
   map weight [sample_order\<lparr>weight := Some (Fin 0), volume := Some (Fin 0)\<rparr>] = [Some (Fin 0)] \<and>
   map volume [sample_order\<lparr>weight := Some (Fin 0), volume := Some (Fin 0)\<rparr>] = [Some (Fin 0)] \<and>
   hasCapacity (analyzeProblemType
      [sample_driver\<lparr>capacity := Some (Fin 0), volume_capacity := Some (Fin 5)\<rparr>]
      [sample_order\<lparr>weight := Some (Fin 0), volume := Some (Fin 0)\<rparr>]
      (optionsWithCapacity
         [sample_driver\<lparr>capacity := Some (Fin 0), volume_capacity := Some (Fin 5)\<rparr>]
         [sample_order\<lparr>weight := Some (Fin 0), volume := Some (Fin 0)\<rparr>] no_options)) \<and>
   map_sum id (\<lambda>r. map (\<lambda>v. (veh_volume_capacity v, weight_capacity v)) (vehicles r))
     (snd (transformToOmeletRequest ''2026-11-03'' (\<lambda>s. None)
        [sample_driver\<lparr>capacity := Some (Fin 0), volume_capacity := Some (Fin 5)\<rparr>]
        [sample_order\<lparr>weight := Some (Fin 0), volume := Some (Fin 0)\<rparr>] [] no_options))
     = Inr [(Some (Fin 5), Some (Fin 1000))]"
  by code_simp

text \<open>
  Claim C2, amended. In the request builder, with no capacity override, when every order has
  weight 0 and volume 0, every driver has capacity 0 and no driver has a volume capacity above
  0, \<open>hasCapacity\<close> is false; changing a single driver capacity, driver volume capacity,
  order weight or order volume to a number above 0 makes it true; and with a capacity
  override \<open>hasCapacity\<close> is the override, whatever the data.
\<close>

theorem builder_hasCapacity_detection:
  "(enableCapacityConstraint options = None \<and>
    (\<forall>ord \<in> set orders. weight ord = Some (Fin 0) \<and> volume ord = Some (Fin 0)) \<and>
    (\<forall>d \<in> set drivers. capacity d = Some (Fin 0) \<and>
                          \<not> js_gt (Number (volume_capacity d)) (Fin 0))
      \<longrightarrow> \<not> hasCapacity (analyzeProblemType drivers orders
                (optionsWithCapacity drivers orders options))) \<and>
   (enableCapacityConstraint options = None \<and> i < length drivers \<and> js_gt x (Fin 0)
      \<longrightarrow> hasCapacity (analyzeProblemType
              (drivers[i := (drivers ! i)\<lparr>capacity := Some x\<rparr>]) orders
              (optionsWithCapacity
                 (drivers[i := (drivers ! i)\<lparr>capacity := Some x\<rparr>]) orders options))) \<and>
   (enableCapacityConstraint options = None \<and> i < length drivers \<and> js_gt x (Fin 0)
      \<longrightarrow> hasCapacity (analyzeProblemType
              (drivers[i := (drivers ! i)\<lparr>volume_capacity := Some x\<rparr>]) orders
              (optionsWithCapacity
                 (drivers[i := (drivers ! i)\<lparr>volume_capacity := Some x\<rparr>]) orders options))) \<and>
   (enableCapacityConstraint options = None \<and> j < length orders \<and> js_gt x (Fin 0)
      \<longrightarrow> hasCapacity (analyzeProblemType drivers
              (orders[j := (orders ! j)\<lparr>weight := Some x\<rparr>])
              (optionsWithCapacity drivers
                 (orders[j := (orders ! j)\<lparr>weight := Some x\<rparr>]) options))) \<and>
   (enableCapacityConstraint options = None \<and> j < length orders \<and> js_gt x (Fin 0)
      \<longrightarrow> hasCapacity (analyzeProblemType drivers
              (orders[j := (orders ! j)\<lparr>volume := Some x\<rparr>])
              (optionsWithCapacity drivers
                 (orders[j := (orders ! j)\<lparr>volume := Some x\<rparr>]) options))) \<and>
   (enableCapacityConstraint options = Some b
      \<longrightarrow> hasCapacity (analyzeProblemType drivers orders
              (optionsWithCapacity drivers orders options)) = b)"
proof (intro conjI impI)
  assume "enableCapacityConstraint options = None \<and>
    (\<forall>ord \<in> set orders. weight ord = Some (Fin 0) \<and> volume ord = Some (Fin 0)) \<and>
    (\<forall>d \<in> set drivers. capacity d = Some (Fin 0) \<and>
                          \<not> js_gt (Number (volume_capacity d)) (Fin 0))"
  then show "\<not> hasCapacity (analyzeProblemType drivers orders
                (optionsWithCapacity drivers orders options))"
    by (simp add: builder_hasCapacity_no_override Number_def js_gt_def)
next
  assume h: "enableCapacityConstraint options = None \<and> i < length drivers \<and> js_gt x (Fin 0)"
  let ?d = "(drivers ! i)\<lparr>capacity := Some x\<rparr>"
  have "?d \<in> set (drivers[i := ?d])" using h by (simp add: set_update_memI)
  moreover have "js_gt (Number (capacity ?d)) (Fin 0)" using h by (simp add: Number_def)
  ultimately show "hasCapacity (analyzeProblemType (drivers[i := ?d]) orders
                     (optionsWithCapacity (drivers[i := ?d]) orders options))"
    unfolding builder_hasCapacity_no_override [of options, OF conjunct1 [OF h]] by blast
next
  assume h: "enableCapacityConstraint options = None \<and> i < length drivers \<and> js_gt x (Fin 0)"
  let ?d = "(drivers ! i)\<lparr>volume_capacity := Some x\<rparr>"
  have "?d \<in> set (drivers[i := ?d])" using h by (simp add: set_update_memI)
  moreover have "js_gt (Number (volume_capacity ?d)) (Fin 0)" using h by (simp add: Number_def)
  ultimately show "hasCapacity (analyzeProblemType (drivers[i := ?d]) orders
                     (optionsWithCapacity (drivers[i := ?d]) orders options))"
    unfolding builder_hasCapacity_no_override [of options, OF conjunct1 [OF h]] by blast
next
  assume h: "enableCapacityConstraint options = None \<and> j < length orders \<and> js_gt x (Fin 0)"
  let ?o = "(orders ! j)\<lparr>weight := Some x\<rparr>"
  have "?o \<in> set (orders[j := ?o])" using h by (simp add: set_update_memI)
  moreover have "js_gt (Number (weight ?o)) (Fin 0)" using h by (simp add: Number_def)
  ultimately show "hasCapacity (analyzeProblemType drivers (orders[j := ?o])
                     (optionsWithCapacity drivers (orders[j := ?o]) options))"
    unfolding builder_hasCapacity_no_override [of options, OF conjunct1 [OF h]] by blast
next
  assume h: "enableCapacityConstraint options = None \<and> j < length orders \<and> js_gt x (Fin 0)"
  let ?o = "(orders ! j)\<lparr>volume := Some x\<rparr>"
  have "?o \<in> set (orders[j := ?o])" using h by (simp add: set_update_memI)
  moreover have "js_gt (Number (volume ?o)) (Fin 0)" using h by (simp add: Number_def)
  ultimately show "hasCapacity (analyzeProblemType drivers (orders[j := ?o])
                     (optionsWithCapacity drivers (orders[j := ?o]) options))"
    unfolding builder_hasCapacity_no_override [of options, OF conjunct1 [OF h]] by blast
next
  assume "enableCapacityConstraint options = Some b"
  then show "hasCapacity (analyzeProblemType drivers orders
               (optionsWithCapacity drivers orders options)) = b"
    by (simp add: builder_hasCapacity)
qed

theorem builder_hasCapacity_detection_witness:
  "\<not> hasCapacity (analyzeProblemType [sample_driver\<lparr>capacity := Some (Fin 0)\<rparr>]
       [sample_order\<lparr>weight := Some (Fin 0), volume := Some (Fin 0)\<rparr>]
       (optionsWithCapacity [sample_driver\<lparr>capacity := Some (Fin 0)\<rparr>]
          [sample_order\<lparr>weight := Some (Fin 0), volume := Some (Fin 0)\<rparr>] no_options)) \<and>
   hasCapacity (analyzeProblemType [sample_driver\<lparr>capacity := Some (Fin 5)\<rparr>]
       [sample_order\<lparr>weight := Some (Fin 0), volume := Some (Fin 0)\<rparr>]
       (optionsWithCapacity [sample_driver\<lparr>capacity := Some (Fin 5)\<rparr>]
          [sample_order\<lparr>weight := Some (Fin 0), volume := Some (Fin 0)\<rparr>] no_options)) \<and>
   hasCapacity (analyzeProblemType
       [sample_driver\<lparr>capacity := Some (Fin 0), volume_capacity := Some (Fin 5)\<rparr>]
       [sample_order\<lparr>weight := Some (Fin 0), volume := Some (Fin 0)\<rparr>]
       (optionsWithCapacity
          [sample_driver\<lparr>capacity := Some (Fin 0), volume_capacity := Some (Fin 5)\<rparr>]
          [sample_order\<lparr>weight := Some (Fin 0), volume := Some (Fin 0)\<rparr>] no_options)) \<and>
   hasCapacity (analyzeProblemType [sample_driver\<lparr>capacity := Some (Fin 0)\<rparr>]
       [sample_order\<lparr>weight := Some (Fin 5), volume := Some (Fin 0)\<rparr>]
       (optionsWithCapacity [sample_driver\<lparr>capacity := Some (Fin 0)\<rparr>]
          [sample_order\<lparr>weight := Some (Fin 5), volume := Some (Fin 0)\<rparr>] no_options)) \<and>
   hasCapacity (analyzeProblemType [sample_driver\<lparr>capacity := Some (Fin 0)\<rparr>]
       [sample_order\<lparr>weight := Some (Fin 0), volume := Some (Fin 5)\<rparr>]
       (optionsWithCapacity [sample_driver\<lparr>capacity := Some (Fin 0)\<rparr>]
          [sample_order\<lparr>weight := Some (Fin 0), volume := Some (Fin 5)\<rparr>] no_options)) \<and>
   \<not> hasCapacity (analyzeProblemType [sample_driver\<lparr>capacity := Some (Fin 5)\<rparr>]
       [sample_order\<lparr>weight := Some (Fin 5), volume := Some (Fin 5)\<rparr>]
       (optionsWithCapacity [sample_driver\<lparr>capacity := Some (Fin 5)\<rparr>]
          [sample_order\<lparr>weight := Some (Fin 5), volume := Some (Fin 5)\<rparr>]
          (no_options\<lparr>enableCapacityConstraint := Some False\<rparr>))) \<and>
   hasCapacity (analyzeProblemType [sample_driver\<lparr>capacity := Some (Fin 0)\<rparr>]
       [sample_order\<lparr>weight := Some (Fin 0), volume := Some (Fin 0)\<rparr>]
       (optionsWithCapacity [sample_driver\<lparr>capacity := Some (Fin 0)\<rparr>]
          [sample_order\<lparr>weight := Some (Fin 0), volume := Some (Fin 0)\<rparr>]
          (no_options\<lparr>enableCapacityConstraint := Some True\<rparr>)))"
  using builder_hasCapacity_detection [of no_options
              "[sample_order\<lparr>weight := Some (Fin 0), volume := Some (Fin 0)\<rparr>]"
              "[sample_driver\<lparr>capacity := Some (Fin 0)\<rparr>]" 0 "Fin 5" 0 True]
        builder_hasCapacity_detection [of "no_options\<lparr>enableCapacityConstraint := Some False\<rparr>"
              "[sample_order\<lparr>weight := Some (Fin 5), volume := Some (Fin 5)\<rparr>]"
              "[sample_driver\<lparr>capacity := Some (Fin 5)\<rparr>]" 0 "Fin 5" 0 False]
        builder_hasCapacity_detection [of "no_options\<lparr>enableCapacityConstraint := Some True\<rparr>"
              "[sample_order\<lparr>weight := Some (Fin 0), volume := Some (Fin 0)\<rparr>]"
              "[sample_driver\<lparr>capacity := Some (Fin 0)\<rparr>]" 0 "Fin 5" 0 True]
  by (simp add: sample_defs js_gt_def Number_def)

text \<open>
  The detection inside the classifier, which a call without an override would reach, does
  not look at the volume capacity of a driver; on the data of the example above it answers
  false, where the builder answers true.
\<close>

lemma classifier_ignores_volume_capacity:
  "\<not> hasCapacity (analyzeProblemType
      [sample_driver\<lparr>capacity := Some (Fin 0), volume_capacity := Some (Fin 5)\<rparr>]
      [sample_order\<lparr>weight := Some (Fin 0), volume := Some (Fin 0)\<rparr>] no_options)"
  by code_simp

section \<open>Properties of the result transformer\<close>

lemma js_slice_strip: "js_slice 1 (- 1) xs = butlast (tl xs)"
proof (cases xs)
  case Nil
  then show ?thesis by (simp add: js_slice_def)
next
  case (Cons x ys)
  have "take (length ys - 1) ys = butlast ys" by (simp add: butlast_conv_take)
  moreover have "nat (int (length ys)) = length ys" by simp
  ultimately show ?thesis using Cons by (simp add: js_slice_def Let_def nat_diff_distrib')
qed

text \<open>
  Claim C4. For every solver response the result transformer maps the name list of each raw
  route to a visit list with the first and the last entry (the depot) removed, passes the
  list of unassigned visit names through unchanged, and takes the aggregate distance,
  duration and cost from the cost details of the solution; a response with the one route
  \<open>[depot, A, B, depot]\<close> gives exactly one route, whose visit list is \<open>[A, B]\<close>.
\<close>

theorem transformOmeletResponse_strips_depot:
  "map (\<lambda>rt. map visit_name' (route_visits rt)) (routes (transformOmeletResponse response)) =
     map (\<lambda>rt. butlast (tl (route_name rt))) (raw_routes (routing_engine_result response)) \<and>
   map vehicle_name (routes (transformOmeletResponse response)) =
     map raw_vehicle_name (raw_routes (routing_engine_result response)) \<and>
   (\<forall>rt \<in> set (routes (transformOmeletResponse response)).
      \<forall>v \<in> set (route_visits rt). arrival_time v = None \<and> departure_time v = None) \<and>
   unassigned_visits (transformOmeletResponse response) =
     unassigned_visit_names (routing_engine_result response) \<and>
   p_total_distance (transformOmeletResponse response) =
     total_distance_cost (solution_cost_details (routing_engine_result response)) \<and>
   p_total_duration (transformOmeletResponse response) =
     total_duration_cost (solution_cost_details (routing_engine_result response)) \<and>
   p_total_cost (transformOmeletResponse response) =
     total_objective_cost (solution_cost_details (routing_engine_result response)) \<and>
   (\<forall>rt. raw_routes (routing_engine_result response) = [rt] \<and>
         route_name rt = [dp, ''A'', ''B'', dp] \<longrightarrow>
      (\<exists>r. routes (transformOmeletResponse response) = [r] \<and>
           map visit_name' (route_visits r) = [''A'', ''B'']))"
  by (auto simp: transformOmeletResponse_def transformRoute_def Let_def js_slice_strip comp_def)

theorem transformOmeletResponse_strips_depot_witness:
  "\<exists>r. routes (transformOmeletResponse (sample_response ''Main Depot'')) = [r] \<and>
       map visit_name' (route_visits r) = [''A'', ''B'']"
  using transformOmeletResponse_strips_depot [of "sample_response ''Main Depot''" "''Main Depot''"]
  by (simp add: sample_response_def)

section \<open>Properties of the error handler\<close>

lemmas handle_eval = handleApiError_def recognized_statuses_def

text \<open>
  Claim C9, as stated: a network-level failure with no HTTP response gets an error kind
  distinct from the kinds of the HTTP statuses. It does not: a failure without a response
  falls into the default case of the switch on the status, as the status 503 does.
\<close>

theorem network_failure_shares_http_error_kind:
  "code (handleApiError (Thrown_AxiosError None)) =
   code (handleApiError (Thrown_AxiosError (Some 503)))"
  by (simp add: handleApiError_def)

text \<open>
  Claim C9, amended. The nine recognized HTTP status codes (400, 401, 403, 404, 405, 406,
  422, 429, 500) are mapped to nine different error kinds, each with remediation
  suggestions. A failure with no HTTP response is mapped to the generic kind \<open>HTTP_ERROR\<close>,
  with suggestions; this kind differs from the nine kinds of the recognized statuses, and
  it is also the kind of every HTTP status that is not recognized.
\<close>

theorem handleApiError_kinds:
  "distinct (map (\<lambda>s. code (handleApiError (Thrown_AxiosError (Some s)))) recognized_statuses) \<and>
   (\<forall>s \<in> set recognized_statuses.
      \<exists>l. suggestions (handleApiError (Thrown_AxiosError (Some s))) = Some l \<and> l \<noteq> []) \<and>
   code (handleApiError (Thrown_AxiosError None)) = HTTP_ERROR \<and>
   (\<exists>l. suggestions (handleApiError (Thrown_AxiosError None)) = Some l \<and> l \<noteq> []) \<and>
   (\<forall>s \<in> set recognized_statuses.
      code (handleApiError (Thrown_AxiosError (Some s))) \<noteq>
      code (handleApiError (Thrown_AxiosError None))) \<and>
   (\<forall>s. s \<notin> set recognized_statuses \<longrightarrow>
      code (handleApiError (Thrown_AxiosError (Some s))) =
      code (handleApiError (Thrown_AxiosError None)))"
  by (simp add: handle_eval)

theorem handleApiError_kinds_witness:
  "code (handleApiError (Thrown_AxiosError (Some 429))) = RATE_LIMIT \<and>
   code (handleApiError (Thrown_AxiosError (Some 429))) \<noteq>
     code (handleApiError (Thrown_AxiosError None)) \<and>
   code (handleApiError (Thrown_AxiosError (Some 502))) =
     code (handleApiError (Thrown_AxiosError None))"
  using handleApiError_kinds by (simp add: handle_eval)

section \<open>Properties of the endpoint selection\<close>

text \<open>
  \<open>selectEndpoint\<close> does what claim C7 says, and \<open>handleSolveOptimization\<close> agrees with it
  from 100 visits or 20 vehicles on.
\<close>

lemma selectEndpoint_thresholds:
  "selectEndpoint 99 19 = ENDPOINT_VRP \<and>
   (n \<ge> 100 \<or> m \<ge> 20 \<longrightarrow> selectEndpoint n m = ENDPOINT_VRP_LONG)"
  by (simp add: selectEndpoint_def)

lemma handleSolveOptimization_large:
  "length (visits r) \<ge> 100 \<or> length (vehicles r) \<ge> 20 \<Longrightarrow>
   posts_to (handleSolveOptimization_call r) = ENDPOINT_VRP_LONG"
  by (auto simp: handleSolveOptimization_call_def posts_to_def ENDPOINT_VRP_LONG_def)

text \<open>
  Claim C7 says that a request with 99 visits and 19 vehicles goes to the synchronous
  endpoint. \<open>selectEndpoint\<close> returns the synchronous endpoint for these counts, but
  \<open>handleSolveOptimization\<close>, which makes the call, does not consult it: its own test is
  more than 50 visits or more than 5 vehicles, and it posts such a request to the
  asynchronous endpoint.
\<close>

theorem handleSolveOptimization_99_19_asynchronous:
  "length (visits (sample_request 99 19)) = 99 \<and> length (vehicles (sample_request 99 19)) = 19 \<and>
   posts_to (handleSolveOptimization_call (sample_request 99 19)) = ENDPOINT_VRP_LONG \<and>
   selectEndpoint 99 19 = ENDPOINT_VRP \<and> ENDPOINT_VRP \<noteq> ENDPOINT_VRP_LONG"
  by (simp add: handleSolveOptimization_call_def posts_to_def ENDPOINT_VRP_LONG_def ENDPOINT_VRP_def
      sample_request_def selectEndpoint_def)

section \<open>Properties of the session manager\<close>

lemma indexOf_workflow_keys:
  "k < 7 \<Longrightarrow> indexOf workflow_keys (workflow_keys ! k) = int k"
proof -
  assume "k < 7"
  then consider "k = 0" | "k = 1" | "k = 2" | "k = 3" | "k = 4" | "k = 5" | "k = 6" by linarith
  then show ?thesis by cases (simp_all add: indexOf_def workflow_keys_def)
qed

text \<open>
  Claim C8. For every stored session and every workflow step index \<open>k\<close>, completing step \<open>k\<close>
  saves the session with \<open>current_step\<close> set to \<open>max current_step (k + 1)\<close>, so that
  \<open>current_step\<close> never decreases; and the advertised next step is the step at index
  \<open>current_step\<close>, and none when \<open>current_step\<close> is at least 7.
\<close>

theorem completeStep_current_step:
  "(store sessionId = Some session \<and> k < 7 \<longrightarrow>
      (\<exists>session'. completeStep now store sessionId (workflow_keys ! k)
                     = Inr (store (session_id session \<mapsto> session')) \<and>
                   session_id session' = session_id session \<and>
                   current_step session' = max (current_step session) (int k + 1) \<and>
                   current_step session \<le> current_step session')) \<and>
   (0 \<le> current_step session \<and> current_step session < 7 \<longrightarrow>
      getNextStep session = Some (WORKFLOW_GUIDES (workflow_keys ! nat (current_step session)))) \<and>
   (current_step session \<ge> 7 \<longrightarrow> getNextStep session = None)"
proof -
  have A: "\<exists>session'. completeStep now store sessionId (workflow_keys ! k)
                     = Inr (store (session_id session \<mapsto> session')) \<and>
                   session_id session' = session_id session \<and>
                   current_step session' = max (current_step session) (int k + 1) \<and>
                   current_step session \<le> current_step session'"
    if h: "store sessionId = Some session \<and> k < 7"
  proof -
    have i: "indexOf workflow_keys (workflow_keys ! k) = int k"
      using h by (simp add: indexOf_workflow_keys)
    show ?thesis
      using h by (auto simp: completeStep_def loadSession_def saveSession_def Let_def i)
  qed
  have B: "getNextStep session = Some (WORKFLOW_GUIDES (workflow_keys ! nat (current_step session)))"
    if "0 \<le> current_step session \<and> current_step session < 7"
    using that by (simp add: getNextStep_def workflow_keys_def)
  have C: "getNextStep session = None" if "current_step session \<ge> 7"
    using that by (simp add: getNextStep_def workflow_keys_def)
  from A B C show ?thesis by blast
qed

text \<open>
  The scenario of the claim: a session at step 1 completes step index 3 (solve) and is at
  step 4; it then completes step index 0 and stays at step 4, whose guide is the next step.
\<close>

theorem completeStep_current_step_witness:
  "\<exists>s1 s2. completeStep ''t1'' [''p1'' \<mapsto> sample_session] ''p1'' solve_optimization
             = Inr [''p1'' \<mapsto> s1] \<and>
           current_step s1 = 4 \<and>
           completeStep ''t2'' [''p1'' \<mapsto> s1] ''p1'' start_project = Inr [''p1'' \<mapsto> s2] \<and>
           current_step s2 = 4 \<and>
           getNextStep s2 = Some (WORKFLOW_GUIDES analyze_results)"
proof -
  have k3: "workflow_keys ! 3 = solve_optimization" and k0: "workflow_keys ! 0 = start_project"
    and k4: "workflow_keys ! 4 = analyze_results"
    by (simp_all add: workflow_keys_def)
  from completeStep_current_step [of "[''p1'' \<mapsto> sample_session]" "''p1''" sample_session 3 "''t1''"]
  obtain s1 where s1: "completeStep ''t1'' [''p1'' \<mapsto> sample_session] ''p1'' solve_optimization
        = Inr [''p1'' \<mapsto> s1]" "session_id s1 = ''p1''" "current_step s1 = 4"
    by (auto simp: k3 sample_session_def)
  from completeStep_current_step [of "[''p1'' \<mapsto> s1]" "''p1''" s1 0 "''t2''"] s1
  obtain s2 where s2: "completeStep ''t2'' [''p1'' \<mapsto> s1] ''p1'' start_project
        = Inr [''p1'' \<mapsto> s2]" "current_step s2 = 4"
    by (auto simp: k0)
  from completeStep_current_step [of "[''p1'' \<mapsto> s2]" "''p1''" s2 0 "''t2''"] s2
  have "getNextStep s2 = Some (WORKFLOW_GUIDES analyze_results)"
    by (simp add: k4)
  with s1 s2 show ?thesis by blast
qed

section \<open>Properties of the request builder\<close>

text \<open>
  The arithmetic of the builder is the arithmetic of doubles. A sum or a quotient that is a
  double is exact; others are rounded: \<open>2^53 + 1\<close> is \<open>2^53\<close>, ten times the double
  \<open>0.1\<close> add up to the double just below 1, and \<open>1000 / 3\<close> is the double nearest to the
  quotient.
\<close>

lemma js_add_exact: "is_double (a + b) \<Longrightarrow> js_add (Fin a) (Fin b) = Fin (a + b)"
  by (simp add: is_double_def)

lemma js_div_exact: "b \<noteq> 0 \<Longrightarrow> is_double (a / b) \<Longrightarrow> js_div (Fin a) (Fin b) = Fin (a / b)"
  by (simp add: is_double_def)

lemma double_arithmetic_examples:
  "js_add (Fin 2000) (Fin 100) = Fin 2100 \<and>
   js_add (Fin (2 ^ 53)) (Fin 1) = Fin (2 ^ 53) \<and>
   to_double (1 / 10) = Fin (3602879701896397 / 36028797018963968) \<and>
   foldl js_add (Fin 0) (replicate 10 (to_double (1 / 10)))
     = Fin (9007199254740991 / 9007199254740992) \<and>
   js_div (Fin 1000) (Fin 8) = Fin 125 \<and>
   js_div (Fin 1000) (Fin 3) = Fin (5864062014805333 / 17592186044416) \<and>
   js_div (Fin (- 1)) (Fin 3) = Fin (- 6004799503160661 / 18014398509481984)"
  by code_simp

text \<open>
  The penalty of a priority is the rounded double quotient, which is not always the rounded
  exact quotient: for the double \<open>222.22222222222223\<close> the exact quotient is just below
  4.5 and the double quotient is 4.5, which \<open>Math.round\<close> takes to 5.
\<close>

lemma penalty_rounds_the_double_quotient:
  "is_double (3909374676536889 / 17592186044416) \<and>
   \<lfloor>1000 / (3909374676536889 / 17592186044416 :: rat) + 1 / 2\<rfloor> = 4 \<and>
   js_div (Fin 1000) (Fin (3909374676536889 / 17592186044416)) = Fin (9 / 2) \<and>
   Math_round (js_div (Fin 1000) (Fin (3909374676536889 / 17592186044416))) = Fin 5 \<and>
   Math_round (js_div (Fin 1000) (Fin 3)) = Fin 333"
  by code_simp

lemma penalty_of_priority_3: "Math_round (js_div (Fin 1000) (Fin 3)) = Fin 333"
  by code_simp


lemma buildVisit_penalty:
  "buildVisit today pa i ord = Inr v \<Longrightarrow>
   unassigned_penalty v =
     (if hasPreferences pa \<and> truthy_num (Number (priority ord))
      then Some (Math_round (js_div (Fin 1000) (Number (priority ord))))
      else if ptype pa \<noteq> TSP then Some (Fin 100) else None)"
  by (auto simp: buildVisit_def Let_def split: if_splits)

lemma buildVisit_no_window:
  "buildVisit today pa i ord = Inr v \<Longrightarrow>
   \<not> (hasTimeWindows pa \<and> truthy_str (time_window_start ord) \<and> truthy_str (time_window_end ord)) \<Longrightarrow>
   time_window v = None \<and> visit_service_time v = None"
  by (auto simp: buildVisit_def Let_def split: if_splits)

lemma buildVisits_from_nth:
  "buildVisits_from today pa k orders = Inr vs \<Longrightarrow>
   length vs = length orders \<and>
   (\<forall>i < length orders. buildVisit today pa (k + i) (orders ! i) = Inr (vs ! i))"
proof (induction orders arbitrary: k vs)
  case Nil
  then show ?case by simp
next
  case (Cons x xs)
  from Cons.prems obtain v vs' where
    v: "buildVisit today pa k x = Inr v" and
    r: "buildVisits_from today pa (Suc k) xs = Inr vs'" and
    e: "vs = v # vs'"
    by (auto split: sum.splits)
  from Cons.IH [OF r] have
    l: "length vs' = length xs" and
    n: "\<forall>i < length xs. buildVisit today pa (Suc k + i) (xs ! i) = Inr (vs' ! i)"
    by simp_all
  show ?case
  proof (intro conjI allI impI)
    show "length vs = length (x # xs)" using l e by simp
  next
    fix i assume "i < length (x # xs)"
    then show "buildVisit today pa (k + i) ((x # xs) ! i) = Inr (vs ! i)"
      using v n e by (cases i) simp_all
  qed
qed

lemma buildVisits_nth:
  "buildVisits today orders pa = Inr vs \<Longrightarrow>
   length vs = length orders \<and>
   (\<forall>i < length orders. buildVisit today pa i (orders ! i) = Inr (vs ! i))"
  using buildVisits_from_nth [of today pa 0 orders vs] by (simp add: buildVisits_def)

lemma buildVehicle_analysis:
  "snd (buildVehicle today pa i d) =
     (if hasWorkingHours pa then pa \<lparr> hasTimeWindows := True \<rparr> else pa)"
  by (simp add: buildVehicle_def Let_def)

lemma buildVehicles_from_analysis:
  "snd (buildVehicles_from today pa k ds) =
     (if hasWorkingHours pa \<and> ds \<noteq> [] then pa \<lparr> hasTimeWindows := True \<rparr> else pa) \<and>
   length (fst (buildVehicles_from today pa k ds)) = length ds"
proof (induction ds arbitrary: pa k)
  case Nil
  then show ?case by simp
next
  case (Cons d ds)
  obtain v pa1 where b: "buildVehicle today pa k d = (v, pa1)" by (cases "buildVehicle today pa k d")
  have p1: "pa1 = (if hasWorkingHours pa then pa \<lparr> hasTimeWindows := True \<rparr> else pa)"
    using buildVehicle_analysis [of today pa k d] b by simp
  obtain vs pa2 where r: "buildVehicles_from today pa1 (Suc k) ds = (vs, pa2)"
    by (cases "buildVehicles_from today pa1 (Suc k) ds")
  from Cons.IH [of pa1 "Suc k"] r have
    p2: "pa2 = (if hasWorkingHours pa1 \<and> ds \<noteq> [] then pa1 \<lparr> hasTimeWindows := True \<rparr> else pa1)"
    and l: "length vs = length ds" by simp_all
  show ?case using b r p1 p2 l by (simp split: if_splits)
qed

lemma buildVehicles_analysis:
  "snd (buildVehicles today drivers pa) =
     (if hasWorkingHours pa \<and> drivers \<noteq> [] then pa \<lparr> hasTimeWindows := True \<rparr> else pa) \<and>
   length (fst (buildVehicles today drivers pa)) = length drivers"
  using buildVehicles_from_analysis [of today pa 0 drivers] by (simp add: buildVehicles_def)

lemma transformToOmeletRequest_Inr:
  assumes "transformToOmeletRequest today parseDate drivers orders depots options = (ws, Inr req)"
  shows "\<exists>dp vs. buildDepot depots drivers = Inr dp \<and>
           buildVisits today orders
             (analyzeProblemType drivers orders (optionsWithCapacity drivers orders options)) = Inr vs \<and>
           depot req = dp \<and> visits req = vs \<and>
           vehicles req = fst (buildVehicles today drivers
             (analyzeProblemType drivers orders (optionsWithCapacity drivers orders options))) \<and>
           validateRequest parseDate req (snd (buildVehicles today drivers
             (analyzeProblemType drivers orders (optionsWithCapacity drivers orders options))))
             = (ws, Inr ())"
  using assms
  by (auto simp: transformToOmeletRequest_def Let_def buildFinalRequest_def
      split: sum.splits prod.splits)


text \<open>
  Claim C3, as stated: an order that carries an explicit priority gets the penalty
  \<open>round(1000/priority)\<close> when the classification has preferences. An order with the
  explicit priority 0 does not: the priority is tested for truthiness, 0 is falsy, and the
  order gets the default 100 of the other branch, not the rounded quotient.
\<close>

theorem zero_priority_gets_default_penalty:
  "hasPreferences (analyzeProblemType
       [sample_driver\<lparr>visit_preference_1 := Some (Fin 1)\<rparr>, sample_driver]
       [sample_order\<lparr>priority := Some (Fin 0)\<rparr>] no_options) \<and>
   map_sum id (map unassigned_penalty)
     (buildVisits ''2026-11-03'' [sample_order\<lparr>priority := Some (Fin 0)\<rparr>]
        (analyzeProblemType [sample_driver\<lparr>visit_preference_1 := Some (Fin 1)\<rparr>, sample_driver]
           [sample_order\<lparr>priority := Some (Fin 0)\<rparr>] no_options))
     = Inr [Some (Fin 100)] \<and>
   Some (Fin 100) \<noteq> Some (Math_round (js_div (Fin 1000) (Fin 0)))"
  by code_simp


text \<open>
  Claim C3, amended. For every order of the built visit list: if the classification has
  preferences and the order carries a priority that is truthy (neither absent, nor 0, nor
  \<open>NaN\<close>), its penalty is \<open>Math.round(1000/priority)\<close>, the quotient being the one of
  doubles; otherwise, if the classified type is not TSP, the penalty is the default 100; and
  otherwise, for the type TSP, no penalty is set.
\<close>

theorem buildVisits_unassigned_penalty:
  "buildVisits today orders pa = Inr vs \<and> i < length orders \<longrightarrow>
     (hasPreferences pa \<and> truthy_num (Number (priority (orders ! i))) \<longrightarrow>
        unassigned_penalty (vs ! i) =
          Some (Math_round (js_div (Fin 1000) (Number (priority (orders ! i)))))) \<and>
     (\<not> (hasPreferences pa \<and> truthy_num (Number (priority (orders ! i)))) \<and> ptype pa \<noteq> TSP \<longrightarrow>
        unassigned_penalty (vs ! i) = Some (Fin 100)) \<and>
     (\<not> (hasPreferences pa \<and> truthy_num (Number (priority (orders ! i)))) \<and> ptype pa = TSP \<longrightarrow>
        unassigned_penalty (vs ! i) = None)"
proof (rule impI)
  assume h: "buildVisits today orders pa = Inr vs \<and> i < length orders"
  then have "buildVisit today pa i (orders ! i) = Inr (vs ! i)"
    using buildVisits_nth [of today orders pa vs] by simp
  from buildVisit_penalty [OF this]
  show "(hasPreferences pa \<and> truthy_num (Number (priority (orders ! i))) \<longrightarrow>
        unassigned_penalty (vs ! i) =
          Some (Math_round (js_div (Fin 1000) (Number (priority (orders ! i)))))) \<and>
     (\<not> (hasPreferences pa \<and> truthy_num (Number (priority (orders ! i)))) \<and> ptype pa \<noteq> TSP \<longrightarrow>
        unassigned_penalty (vs ! i) = Some (Fin 100)) \<and>
     (\<not> (hasPreferences pa \<and> truthy_num (Number (priority (orders ! i)))) \<and> ptype pa = TSP \<longrightarrow>
        unassigned_penalty (vs ! i) = None)"
    by (auto simp: Number_def truthy_num_def)
qed

theorem buildVisits_unassigned_penalty_witness:
  "map_sum id (map unassigned_penalty)
     (buildVisits ''2026-11-03'' [sample_order\<lparr>priority := Some (Fin 3)\<rparr>, sample_order]
        (analyzeProblemType [sample_driver\<lparr>visit_preference_1 := Some (Fin 1)\<rparr>, sample_driver]
           [sample_order\<lparr>priority := Some (Fin 3)\<rparr>, sample_order] no_options))
     = Inr [Some (Fin 333), Some (Fin 100)] \<and>
   map_sum id (map unassigned_penalty)
     (buildVisits ''2026-11-03'' [sample_order\<lparr>priority := Some (Fin 3)\<rparr>]
        (analyzeProblemType [sample_driver] [sample_order\<lparr>priority := Some (Fin 3)\<rparr>] no_options))
     = Inr [None]"
proof -
  let ?O = "[sample_order\<lparr>priority := Some (Fin 3)\<rparr>, sample_order]"
  let ?pa = "analyzeProblemType [sample_driver\<lparr>visit_preference_1 := Some (Fin 1)\<rparr>, sample_driver]
               ?O no_options"
  let ?O1 = "[sample_order\<lparr>priority := Some (Fin 3)\<rparr>]"
  let ?pa1 = "analyzeProblemType [sample_driver] ?O1 no_options"
  have ok: "\<not> isl (buildVisits ''2026-11-03'' ?O ?pa)" by code_simp
  then obtain vs where vs: "buildVisits ''2026-11-03'' ?O ?pa = Inr vs"
    by (cases "buildVisits ''2026-11-03'' ?O ?pa") auto
  have ok1: "\<not> isl (buildVisits ''2026-11-03'' ?O1 ?pa1)" by code_simp
  then obtain vs1 where vs1: "buildVisits ''2026-11-03'' ?O1 ?pa1 = Inr vs1"
    by (cases "buildVisits ''2026-11-03'' ?O1 ?pa1") auto
  have f: "hasPreferences ?pa" "ptype ?pa \<noteq> TSP" "\<not> hasPreferences ?pa1" "ptype ?pa1 = TSP"
    by code_simp+
  have l: "length vs = 2" "length vs1 = 1"
    using buildVisits_nth [OF vs] buildVisits_nth [OF vs1] by simp_all
  have p0: "unassigned_penalty (vs ! 0) = Some (Fin 333)"
    using buildVisits_unassigned_penalty [of "''2026-11-03''" ?O ?pa vs 0] vs f
    by (simp add: sample_order_def Number_def truthy_num_def penalty_of_priority_3
             del: js_div.simps)
  have p1: "unassigned_penalty (vs ! 1) = Some (Fin 100)"
    using buildVisits_unassigned_penalty [of "''2026-11-03''" ?O ?pa vs 1] vs f
    by (simp add: sample_order_def Number_def truthy_num_def)
  have q0: "unassigned_penalty (vs1 ! 0) = None"
    using buildVisits_unassigned_penalty [of "''2026-11-03''" ?O1 ?pa1 vs1 0] vs1 f by simp
  have "map unassigned_penalty vs = [Some (Fin 333), Some (Fin 100)]"
    using l p0 p1 by (auto simp: length_Suc_conv numeral_2_eq_2)
  moreover have "map unassigned_penalty vs1 = [None]"
    using l q0 by (auto simp: length_Suc_conv)
  ultimately show ?thesis using vs vs1 by simp
qed


text \<open>
  Where the two versions of the client differ: for the type TSP without preferences the
  builder sets no penalty, the earlier version sets 100.
\<close>

lemma legacy_unassigned_penalty_differs:
  "buildVisit today pa i ord = Inr v \<Longrightarrow> ptype pa = TSP \<Longrightarrow> \<not> hasPreferences pa \<Longrightarrow>
   priority ord = None \<Longrightarrow>
   unassigned_penalty v = None \<and> legacy_unassigned_penalty ord = Fin 100"
  by (auto simp: legacy_unassigned_penalty_def buildVisit_def Let_def truthy_num_def Number_def
      split: if_splits)

text \<open>
  Claim C10. When at least one driver has a working-hours bound, no order has both
  time-window bounds and no time-window override is given (or the override is false, which
  the classifier treats alike), the visits of the built request
  carry no time window and no service time: the classifier leaves \<open>hasTimeWindows\<close> false,
  the visits are built from this analysis, and only afterwards does building the vehicles
  set the flag, so that the final validation of the time windows runs.
\<close>

theorem visits_before_working_hours_flag:
  "(\<exists>d \<in> set drivers. truthy_str (working_hours_start d) \<or> truthy_str (working_hours_end d)) \<and>
   (\<forall>ord \<in> set orders. \<not> (truthy_str (time_window_start ord) \<and> truthy_str (time_window_end ord))) \<and>
   enableTimeWindowConstraint options \<noteq> Some True \<longrightarrow>
     \<not> hasTimeWindows (analyzeProblemType drivers orders (optionsWithCapacity drivers orders options)) \<and>
     hasTimeWindows (snd (buildVehicles today drivers
        (analyzeProblemType drivers orders (optionsWithCapacity drivers orders options)))) \<and>
     (\<forall>ws req. transformToOmeletRequest today parseDate drivers orders depots options = (ws, Inr req)
        \<longrightarrow> length (visits req) = length orders \<and>
            (\<forall>v \<in> set (visits req). time_window v = None \<and> visit_service_time v = None))"
proof (rule impI)
  let ?pa = "analyzeProblemType drivers orders (optionsWithCapacity drivers orders options)"
  assume h: "(\<exists>d \<in> set drivers. truthy_str (working_hours_start d) \<or> truthy_str (working_hours_end d)) \<and>
   (\<forall>ord \<in> set orders. \<not> (truthy_str (time_window_start ord) \<and> truthy_str (time_window_end ord))) \<and>
   enableTimeWindowConstraint options \<noteq> Some True"
  have tw: "\<not> hasTimeWindows ?pa"
    using h by (simp add: hasTimeWindows_eq optionsWithCapacity_timeWindow)
  have wh: "hasWorkingHours ?pa" using h by (simp add: hasWorkingHours_eq)
  have ne: "drivers \<noteq> []" using h by auto
  have flip: "hasTimeWindows (snd (buildVehicles today drivers ?pa))"
    using wh ne by (simp add: buildVehicles_analysis)
  have vis: "length (visits req) = length orders \<and>
             (\<forall>v \<in> set (visits req). time_window v = None \<and> visit_service_time v = None)"
    if t: "transformToOmeletRequest today parseDate drivers orders depots options = (ws, Inr req)"
    for ws req
  proof -
    from transformToOmeletRequest_Inr [OF t]
    have b: "buildVisits today orders ?pa = Inr (visits req)" by auto
    from buildVisits_nth [OF b] have
      l: "length (visits req) = length orders" and
      n: "\<forall>i < length orders. buildVisit today ?pa i (orders ! i) = Inr (visits req ! i)"
      by simp_all
    have "time_window v = None \<and> visit_service_time v = None" if "v \<in> set (visits req)" for v
    proof -
      from that obtain i where i: "i < length (visits req)" "v = visits req ! i"
        by (auto simp: in_set_conv_nth)
      with n l have "buildVisit today ?pa i (orders ! i) = Inr v" by simp
      from buildVisit_no_window [OF this] tw show ?thesis by simp
    qed
    with l show ?thesis by blast
  qed
  from tw flip vis
  show "\<not> hasTimeWindows ?pa \<and> hasTimeWindows (snd (buildVehicles today drivers ?pa)) \<and>
     (\<forall>ws req. transformToOmeletRequest today parseDate drivers orders depots options = (ws, Inr req)
        \<longrightarrow> length (visits req) = length orders \<and>
            (\<forall>v \<in> set (visits req). time_window v = None \<and> visit_service_time v = None))"
    by blast
qed

theorem visits_before_working_hours_flag_witness:
  "\<not> hasTimeWindows (analyzeProblemType [sample_driver\<lparr>working_hours_start := Some ''09:00''\<rparr>]
        [sample_order, sample_order]
        (optionsWithCapacity [sample_driver\<lparr>working_hours_start := Some ''09:00''\<rparr>]
           [sample_order, sample_order] no_options)) \<and>
   hasTimeWindows (snd (buildVehicles ''2026-11-03''
        [sample_driver\<lparr>working_hours_start := Some ''09:00''\<rparr>]
        (analyzeProblemType [sample_driver\<lparr>working_hours_start := Some ''09:00''\<rparr>]
           [sample_order, sample_order]
           (optionsWithCapacity [sample_driver\<lparr>working_hours_start := Some ''09:00''\<rparr>]
              [sample_order, sample_order] no_options)))) \<and>
   map_sum id (map time_window \<circ> visits)
     (snd (transformToOmeletRequest ''2026-11-03'' isoDateMs
        [sample_driver\<lparr>working_hours_start := Some ''09:00''\<rparr>] [sample_order, sample_order] []
        no_options)) = Inr [None, None] \<and>
   map_sum id (map visit_service_time \<circ> visits)
     (snd (transformToOmeletRequest ''2026-11-03'' isoDateMs
        [sample_driver\<lparr>working_hours_start := Some ''09:00''\<rparr>] [sample_order, sample_order] []
        no_options)) = Inr [None, None]"
proof -
  let ?D = "[sample_driver\<lparr>working_hours_start := Some ''09:00''\<rparr>]"
  let ?O = "[sample_order, sample_order]"
  let ?t = "transformToOmeletRequest ''2026-11-03'' isoDateMs ?D ?O [] no_options"
  have "\<not> isl (snd ?t)" by code_simp
  then obtain ws req where t: "?t = (ws, Inr req)"
    by (cases ?t; cases "snd ?t") auto
  have hyp: "(\<exists>d \<in> set ?D. truthy_str (working_hours_start d) \<or> truthy_str (working_hours_end d)) \<and>
     (\<forall>ord \<in> set ?O. \<not> (truthy_str (time_window_start ord) \<and> truthy_str (time_window_end ord))) \<and>
     enableTimeWindowConstraint no_options \<noteq> Some True"
    by (simp add: sample_defs truthy_str_def)
  note c = visits_before_working_hours_flag [of ?D ?O no_options "''2026-11-03''" isoDateMs "[]", THEN mp, OF hyp]
  from c t have l: "length (visits req) = 2"
    and n: "\<forall>v \<in> set (visits req). time_window v = None \<and> visit_service_time v = None"
    by auto
  from l n have "map time_window (visits req) = [None, None]"
    "map visit_service_time (visits req) = [None, None]"
    by (auto simp: length_Suc_conv numeral_2_eq_2)
  with c t show ?thesis by simp
qed


text \<open>
  Claim C6. When the capacity constraint is active, the comparison of the total demand with
  the total capacity in the final validation is a soft check: on a request that passes the
  other checks, a demand above the capacity gives one warning and success, a demand of at
  most the capacity gives success without a warning, and whether the validation fails does
  not depend on the capacity check at all.
\<close>

theorem validateRequest_capacity_is_soft:
  "(hasCapacity pa \<and> visits req \<noteq> [] \<and> vehicles req \<noteq> [] \<and>
    \<not> (hasTimeWindows pa \<and> hasInvalidTimeWindows parseDate (visits req)) \<and>
    js_gt (totalDemand (visits req)) (totalCapacity (vehicles req))
      \<longrightarrow> validateRequest parseDate req pa =
            ([DemandExceedsCapacity (totalDemand (visits req)) (totalCapacity (vehicles req))], Inr ())) \<and>
   (hasCapacity pa \<and> visits req \<noteq> [] \<and> vehicles req \<noteq> [] \<and>
    \<not> (hasTimeWindows pa \<and> hasInvalidTimeWindows parseDate (visits req)) \<and>
    \<not> js_gt (totalDemand (visits req)) (totalCapacity (vehicles req))
      \<longrightarrow> validateRequest parseDate req pa = ([], Inr ())) \<and>
   snd (validateRequest parseDate req pa) =
     snd (validateRequest parseDate req (pa \<lparr> hasCapacity := False \<rparr>))"
  by (simp add: validateRequest_def capacity_warnings_def)

theorem validateRequest_capacity_is_soft_witness:
  "validateRequest isoDateMs
     ((sample_request 20 3)
        \<lparr>visits := replicate 20 (sample_visit\<lparr>visit_weight := Some (Fin 200)\<rparr>),
         vehicles := replicate 3 (sample_vehicle\<lparr>weight_capacity := Some (Fin 1000)\<rparr>)\<rparr>)
     (analyzeProblemType [sample_driver\<lparr>capacity := Some (Fin 1000)\<rparr>] [] no_options)
     = ([DemandExceedsCapacity (Fin 4000) (Fin 3000)], Inr ()) \<and>
   validateRequest isoDateMs
     ((sample_request 20 3)
        \<lparr>visits := replicate 20 (sample_visit\<lparr>visit_weight := Some (Fin 100)\<rparr>),
         vehicles := replicate 3 (sample_vehicle\<lparr>weight_capacity := Some (Fin 1000)\<rparr>)\<rparr>)
     (analyzeProblemType [sample_driver\<lparr>capacity := Some (Fin 1000)\<rparr>] [] no_options)
     = ([], Inr ())"
proof -
  let ?pa = "analyzeProblemType [sample_driver\<lparr>capacity := Some (Fin 1000)\<rparr>] [] no_options"
  let ?r = "\<lambda>w. (sample_request 20 3)
        \<lparr>visits := replicate 20 (sample_visit\<lparr>visit_weight := Some (Fin w)\<rparr>),
         vehicles := replicate 3 (sample_vehicle\<lparr>weight_capacity := Some (Fin 1000)\<rparr>)\<rparr>"
  have pa: "hasCapacity ?pa" "\<not> hasTimeWindows ?pa" by code_simp+
  have d: "totalDemand (visits (?r 200)) = Fin 4000" "totalDemand (visits (?r 100)) = Fin 2000"
    "totalCapacity (vehicles (?r 200)) = Fin 3000" "totalCapacity (vehicles (?r 100)) = Fin 3000"
    by code_simp+
  have ne: "visits (?r 200) \<noteq> []" "vehicles (?r 200) \<noteq> []" "visits (?r 100) \<noteq> []"
    "vehicles (?r 100) \<noteq> []"
    by code_simp+
  have a: "validateRequest isoDateMs (?r 200) ?pa = ([DemandExceedsCapacity (Fin 4000) (Fin 3000)], Inr ())"
    using validateRequest_capacity_is_soft [of ?pa "?r 200" isoDateMs] pa ne unfolding d by (simp add: js_gt_def)
  have b: "validateRequest isoDateMs (?r 100) ?pa = ([], Inr ())"
    using validateRequest_capacity_is_soft [of ?pa "?r 100" isoDateMs] pa ne unfolding d by (simp add: js_gt_def)
  from a b show ?thesis by simp
qed


text \<open>
  The two scenarios of the specification, through the whole builder: three drivers of
  capacity 1000 each and twenty orders of weight 100 each, and the same with weight 200.
\<close>

lemma transformToOmeletRequest_capacity_scenarios:
  "fst (transformToOmeletRequest ''2026-11-03'' isoDateMs
          (replicate 3 (sample_driver\<lparr>capacity := Some (Fin 1000)\<rparr>))
          (replicate 20 (sample_order\<lparr>weight := Some (Fin 100)\<rparr>)) [] no_options) = [] \<and>
   \<not> isl (snd (transformToOmeletRequest ''2026-11-03'' isoDateMs
          (replicate 3 (sample_driver\<lparr>capacity := Some (Fin 1000)\<rparr>))
          (replicate 20 (sample_order\<lparr>weight := Some (Fin 100)\<rparr>)) [] no_options)) \<and>
   fst (transformToOmeletRequest ''2026-11-03'' isoDateMs
          (replicate 3 (sample_driver\<lparr>capacity := Some (Fin 1000)\<rparr>))
          (replicate 20 (sample_order\<lparr>weight := Some (Fin 200)\<rparr>)) [] no_options)
     = [DemandExceedsCapacity (Fin 4000) (Fin 3000)] \<and>
   \<not> isl (snd (transformToOmeletRequest ''2026-11-03'' isoDateMs
          (replicate 3 (sample_driver\<lparr>capacity := Some (Fin 1000)\<rparr>))
          (replicate 20 (sample_order\<lparr>weight := Some (Fin 200)\<rparr>)) [] no_options))"
  by code_simp


text \<open>
  The totals are sums of doubles, added from the left. Two demands \<open>2^53\<close> and 1 add up to
  \<open>2^53\<close>, and ten demands of the double \<open>0.1\<close> to the double just below 1: neither total
  exceeds a capacity of \<open>2^53\<close> or of 1, and there is no warning.
\<close>

lemma validateRequest_totals_are_doubles:
  "totalDemand [sample_visit\<lparr>visit_weight := Some (Fin (2 ^ 53))\<rparr>,
                sample_visit\<lparr>visit_weight := Some (Fin 1)\<rparr>] = Fin (2 ^ 53) \<and>
   validateRequest parseDate
     ((sample_request 2 1)
        \<lparr>visits := [sample_visit\<lparr>visit_weight := Some (Fin (2 ^ 53))\<rparr>,
                    sample_visit\<lparr>visit_weight := Some (Fin 1)\<rparr>],
         vehicles := [sample_vehicle\<lparr>weight_capacity := Some (Fin (2 ^ 53))\<rparr>]\<rparr>)
     (analyzeProblemType [sample_driver\<lparr>capacity := Some (Fin 1000)\<rparr>] [] no_options)
     = ([], Inr ()) \<and>
   totalDemand (replicate 10 (sample_visit\<lparr>visit_weight := Some (to_double (1 / 10))\<rparr>))
     = Fin (9007199254740991 / 9007199254740992) \<and>
   validateRequest parseDate
     ((sample_request 10 1)
        \<lparr>visits := replicate 10 (sample_visit\<lparr>visit_weight := Some (to_double (1 / 10))\<rparr>),
         vehicles := [sample_vehicle\<lparr>weight_capacity := Some (Fin 1)\<rparr>]\<rparr>)
     (analyzeProblemType [sample_driver\<lparr>capacity := Some (Fin 1000)\<rparr>] [] no_options)
     = ([], Inr ())"
  by code_simp

text \<open>A window whose start bound contains \<open>T\<close> is passed through as it is.\<close>

lemma buildVisit_pass_through:
  "buildVisit today pa i ord = Inr v \<Longrightarrow> hasTimeWindows pa \<Longrightarrow>
   time_window_start ord = Some s \<Longrightarrow> time_window_end ord = Some e \<Longrightarrow> e \<noteq> [] \<Longrightarrow>
   str_includes s CHR ''T'' \<Longrightarrow> time_window v = Some (s, e)"
  by (auto simp: buildVisit_def Let_def truthy_str_def str_includes_def split: if_splits)

text \<open>
  Windows given as \<open>HH:MM\<close>. The bounds are combined with the same date, so the time
  stamps are ordered as the minutes are; and when the depot and the visits are built and
  there is a driver and an order, the build fails with the time-window error exactly when
  some order has its start at or after its end.
\<close>

lemma dec_from_digits: "dec_from acc s = Some x \<Longrightarrow> c \<in> set s \<Longrightarrow> is_digit c"
  by (induction s arbitrary: acc) (auto simp: is_digit_def split: option.splits)

lemma dec_digits: "dec s = Some x \<Longrightarrow> c \<in> set s \<Longrightarrow> is_digit c"
  by (auto simp: dec_def split: if_splits dest: dec_from_digits)

lemma takeWhile_no_digit_ahead: "no_digit_ahead r \<Longrightarrow> takeWhile is_digit r = []"
  by (cases r) (auto simp: no_digit_ahead_def)

lemma dropWhile_no_digit_ahead: "no_digit_ahead r \<Longrightarrow> dropWhile is_digit r = r"
  by (cases r) (auto simp: no_digit_ahead_def)

lemma fixed_number_read:
  assumes "dec ds = Some v" "length ds = n" "no_digit_ahead r"
  shows "fixed_number n (ds @ r) = Some (v, r)"
proof -
  have a: "\<And>c. c \<in> set ds \<Longrightarrow> is_digit c" using assms(1) by (rule dec_digits)
  have "takeWhile is_digit (ds @ r) = ds"
    using a by (simp add: takeWhile_append2 takeWhile_no_digit_ahead [OF assms(3)])
  moreover have "dropWhile is_digit (ds @ r) = r"
    using a by (simp add: dropWhile_append2 dropWhile_no_digit_ahead [OF assms(3)])
  ultimately show ?thesis using assms by (simp add: fixed_number_def)
qed

lemma no_digit_ahead_simps [simp]:
  "no_digit_ahead []"
  "no_digit_ahead (CHR ''-'' # r)"
  "no_digit_ahead (CHR '':'' # r)"
  "no_digit_ahead (CHR ''T'' # r)"
  "no_digit_ahead (CHR ''Z'' # r)"
  by (simp_all add: no_digit_ahead_def is_digit_def digit_of_def)

lemma digit_not_sign: "is_digit c \<Longrightarrow> c \<noteq> CHR ''+'' \<and> c \<noteq> CHR ''-''"
  by (auto simp: is_digit_def digit_of_def)

lemma read_year_4:
  assumes "dec ds = Some y" "length ds = 4" "no_digit_ahead r"
  shows "read_year (ds @ r) = Some (int y, r)"
proof -
  from assms(2) obtain c cs where ds: "ds = c # cs" by (cases ds) auto
  have "is_digit c" using assms(1) ds by (auto intro: dec_digits)
  then have c: "c \<noteq> CHR ''+''" "c \<noteq> CHR ''-''" using digit_not_sign by auto
  have "read_year (ds @ r) = map_option (\<lambda>(y, r'). (int y, r')) (fixed_number 4 (ds @ r))"
    using c by (simp add: read_year_def ds)
  then show ?thesis using fixed_number_read [OF assms] by simp
qed

lemma read_date_ymd:
  assumes "dec ys = Some y" "length ys = 4" "dec ms = Some m" "length ms = 2"
    "dec dds = Some d" "length dds = 2" "1 \<le> m" "m \<le> 12" "1 \<le> d" "d \<le> 31" "no_digit_ahead r"
  shows "read_date (ys @ CHR ''-'' # ms @ CHR ''-'' # dds @ r) = Some ((int y, m, d), r)"
  using assms(7-10)
  by (simp add: read_date_def read_year_4 [OF assms(1,2)] skip_symbol_def
        fixed_number_read [OF assms(3,4)] fixed_number_read [OF assms(5,6) assms(11)])

lemma read_time_hms:
  assumes "dec hs = Some h" "length hs = 2" "dec ms = Some mi" "length ms = 2"
    "dec ss = Some se" "length ss = 2" "h \<le> 23" "mi \<le> 59" "se \<le> 59"
  shows "read_time (hs @ CHR '':'' # ms @ CHR '':'' # ss @ ''Z'') = Some ((h, mi, se, 0), ''Z'')"
  using assms(7-9)
  by (simp add: read_time_def skip_symbol_def fixed_number_read [OF assms(1,2)]
        fixed_number_read [OF assms(3,4)] fixed_number_read [OF assms(5,6)])

lemma days_in_month_le: "days_in_month y m \<le> 31"
  by (simp add: days_in_month_def)

lemma dec_00: "dec ''00'' = Some 0"
  by (simp add: dec_def digit_of_def)

lemma days_from_civil_bounds:
  assumes "y < 10000" "1 \<le> m" "m \<le> 12" "d \<le> 31"
  shows "\<bar>days_from_civil (int y) m d\<bar> < 10000000"
proof -
  define y' where "y' = (if m \<le> 2 then int y - 1 else int y)"
  define era where "era = y' div 400"
  define yoe where "yoe = y' - era * 400"
  define mp where "mp = (if m > 2 then int m - 3 else int m + 9)"
  define doy where "doy = (153 * mp + 2) div 5 + int d - 1"
  have y': "- 1 \<le> y'" "y' < 10000" using assms by (auto simp: y'_def)
  have era: "- 1 \<le> era" "era \<le> 24" using y' unfolding era_def by presburger+
  have yoe: "0 \<le> yoe" "yoe \<le> 399" unfolding yoe_def era_def by presburger+
  have q: "0 \<le> yoe div 4" "yoe div 4 \<le> 99" "0 \<le> yoe div 100" "yoe div 100 \<le> 3"
    using yoe by presburger+
  have mp: "0 \<le> mp" "mp \<le> 11" using assms by (auto simp: mp_def)
  have "0 \<le> (153 * mp + 2) div 5" using mp by (simp add: pos_imp_zdiv_nonneg_iff)
  moreover have "(153 * mp + 2) div 5 \<le> 337"
    using zdiv_mono1 [of "153 * mp + 2" 1685 5] mp by simp
  ultimately have doy: "- 1 \<le> doy" "doy \<le> 400" using assms by (auto simp: doy_def)
  have "days_from_civil (int y) m d =
          era * 146097 + (yoe * 365 + yoe div 4 - yoe div 100 + doy) - 719468"
    by (simp add: days_from_civil_def Let_def y'_def era_def yoe_def mp_def doy_def)
  then show ?thesis using era yoe q doy by linarith
qed

lemma dec_from_lt: "dec_from acc s = Some v \<Longrightarrow> v < (acc + 1) * 10 ^ length s"
proof (induction s arbitrary: acc)
  case Nil
  then show ?case by simp
next
  case (Cons c cs)
  from Cons.prems obtain x where x: "digit_of c = Some x" and
    r: "dec_from (10 * acc + x) cs = Some v"
    by (auto split: option.splits)
  have "x \<le> 9" using x by (auto simp: digit_of_def Let_def split: if_splits)
  then have "(10 * acc + x + 1) * 10 ^ length cs \<le> (10 * (acc + 1)) * 10 ^ length cs"
    by (intro mult_right_mono) auto
  with Cons.IH [OF r] have "v < (10 * (acc + 1)) * 10 ^ length cs"
    by (rule less_le_trans)
  moreover have "(10 * (acc + 1)) * 10 ^ length cs = (acc + 1) * 10 ^ length (c # cs)"
    by (simp add: algebra_simps)
  ultimately show ?case by (simp only:)
qed

lemma dec_lt: "dec s = Some v \<Longrightarrow> v < 10 ^ length s"
  using dec_from_lt [of 0 s v] by (auto simp: dec_def split: if_splits)

lemma parseES5DateTime_full:
  assumes "dec ys = Some y" "length ys = 4" "dec ms = Some m" "length ms = 2"
    "dec dds = Some d" "length dds = 2" "1 \<le> m" "m \<le> 12" "1 \<le> d" "d \<le> 31"
    "dec hs = Some h" "length hs = 2" "dec mis = Some mi" "length mis = 2"
    "dec ss = Some se" "length ss = 2" "h \<le> 23" "mi \<le> 59" "se \<le> 59"
  shows "parseES5DateTime toUTC
           (ys @ CHR ''-'' # ms @ CHR ''-'' # dds @ CHR ''T'' # hs @ CHR '':'' # mis @ CHR '':'' # ss @ ''Z'')
         = Reads (days_from_civil (int y) m d * 86400000 + time_ms h mi se)"
proof -
  have ts: "time_separator (CHR ''T'' # hs @ CHR '':'' # mis @ CHR '':'' # ss @ ''Z'')"
  proof -
    from assms(12) obtain c cs where hs: "hs = c # cs" by (cases hs) auto
    have "is_digit c" using assms(11) hs by (auto intro: dec_digits)
    then have "\<not> is_word_char c"
      by (auto simp: is_digit_def digit_of_def is_word_char_def Let_def split: if_splits)
    then show ?thesis by (simp add: time_separator_def hs)
  qed
  show ?thesis
    using ts
    by (simp add: parseES5DateTime_def
          read_date_ymd [OF assms(1-10), of "CHR ''T'' # hs @ CHR '':'' # mis @ CHR '':'' # ss @ ''Z''"]
          read_time_hms [OF assms(11-19)] read_zone_def)
qed

lemma dateMs_full:
  assumes "dec ys = Some y" "length ys = 4" "dec ms = Some m" "length ms = 2"
    "dec dds = Some d" "length dds = 2" "1 \<le> m" "m \<le> 12" "1 \<le> d" "d \<le> 31"
    "dec hs = Some h" "length hs = 2" "dec mis = Some mi" "length mis = 2"
    "dec ss = Some se" "length ss = 2" "h \<le> 23" "mi \<le> 59" "se \<le> 59"
  shows "dateMs legacy toUTC
           (ys @ CHR ''-'' # ms @ CHR ''-'' # dds @ CHR ''T'' # hs @ CHR '':'' # mis @ CHR '':'' # ss @ ''Z'')
         = Some (days_from_civil (int y) m d * 86400000 + time_ms h mi se)"
proof -
  have "y < 10000" using dec_lt [OF assms(1)] assms(2) by simp
  from days_from_civil_bounds [OF this assms(7,8,10)]
  have b: "\<bar>days_from_civil (int y) m d\<bar> < 10000000" .
  have "0 \<le> time_ms h mi se" "time_ms h mi se < 86400000"
    using assms(17-19) by (auto simp: time_ms_def)
  with b have "\<bar>days_from_civil (int y) m d * 86400000 + time_ms h mi se\<bar> \<le> 8640000000000000"
    by linarith
  then show ?thesis
    by (simp add: dateMs_def parseES5DateTime_full [OF assms] TimeClip_def)
qed

lemma list_of_length_5: "length t = 5 \<Longrightarrow> \<exists>a b c d e. t = [a, b, c, d, e]"
  by (auto simp: length_Suc_conv eval_nat_numeral)

lemma list_of_length_10:
  "length t = 10 \<Longrightarrow> \<exists>a b c d e f g h i j. t = [a, b, c, d, e, f, g, h, i, j]"
  by (auto simp: length_Suc_conv eval_nat_numeral)

lemma dateMs_with_today:
  assumes d: "date_days d = Some n" and t: "hhmm_minutes t = Some k"
  shows "dateMs legacy toUTC (with_today d t) = Some (n * 86400000 + int k * 60000)"
proof -
  from d have "length d = 10" by (auto simp: date_days_def split: if_splits)
  then have "\<exists>y1 y2 y3 y4 s1 m1 m2 s2 d1 d2. d = [y1, y2, y3, y4, s1, m1, m2, s2, d1, d2]"
    by (rule list_of_length_10)
  then obtain y1 y2 y3 y4 s1 m1 m2 s2 d1 d2 where
    ds: "d = [y1, y2, y3, y4, s1, m1, m2, s2, d1, d2]"
    by (elim exE)
  from t have "length t = 5" by (auto simp: hhmm_minutes_def split: if_splits)
  then have "\<exists>h1 h2 c i1 i2. t = [h1, h2, c, i1, i2]"
    by (rule list_of_length_5)
  then obtain h1 h2 c i1 i2 where ts: "t = [h1, h2, c, i1, i2]"
    by (elim exE)
  from d obtain y m dd where
    s: "s1 = CHR ''-''" "s2 = CHR ''-''" and
    y: "dec [y1, y2, y3, y4] = Some y" and m: "dec [m1, m2] = Some m" and
    dd: "dec [d1, d2] = Some dd" and
    r: "1 \<le> m" "m \<le> 12" "1 \<le> dd" "dd \<le> days_in_month y m" and
    n: "n = days_from_civil (int y) m dd"
    unfolding ds date_days_def by (simp split: if_splits option.splits)
  from t obtain h mi where
    c: "c = CHR '':''" and
    h: "dec [h1, h2] = Some h" and mi: "dec [i1, i2] = Some mi" and
    rt: "h \<le> 23" "mi \<le> 59" and k: "k = h * 60 + mi"
    unfolding ts hhmm_minutes_def by (auto split: if_splits option.splits)
  have d31: "dd \<le> 31" using r(4) days_in_month_le [of y m] by simp
  from dateMs_full [OF y _ m _ dd _ r(1,2,3) d31 h _ mi _ dec_00 _ rt, of legacy toUTC]
  show ?thesis
    unfolding ds ts with_today_def
    by (simp add: s c n k time_ms_def)
qed


lemma hhmm_window_order:
  assumes "date_days today = Some n" "hhmm_minutes s = Some a" "hhmm_minutes e = Some b"
  shows "date_ge (dateMs legacy toUTC (with_today today s)) (dateMs legacy toUTC (with_today today e))
           = (a \<ge> b)"
  using dateMs_with_today [OF assms(1) assms(2)] dateMs_with_today [OF assms(1) assms(3)]
  by (simp add: date_ge_def)

lemma digit_of_T: "digit_of c = Some x \<Longrightarrow> c \<noteq> CHR ''T''"
  by (auto simp: digit_of_def Let_def split: if_splits)

lemma dec_from_no_T: "dec_from acc s = Some x \<Longrightarrow> CHR ''T'' \<notin> set s"
  by (induction s arbitrary: acc) (auto split: option.splits dest: digit_of_T)

lemma dec_no_T: "dec s = Some x \<Longrightarrow> CHR ''T'' \<notin> set s"
  by (auto simp: dec_def split: if_splits dest: dec_from_no_T)

lemma hhmm_no_T:
  assumes "hhmm_minutes t = Some k"
  shows "\<not> str_includes t CHR ''T''"
proof -
  from assms have "length t = 5" by (auto simp: hhmm_minutes_def split: if_splits)
  then have "\<exists>h1 h2 c i1 i2. t = [h1, h2, c, i1, i2]"
    by (rule list_of_length_5)
  then obtain h1 h2 c i1 i2 where ts: "t = [h1, h2, c, i1, i2]"
    by (elim exE)
  from assms obtain h mi where
    c: "c = CHR '':''" and
    h: "dec [h1, h2] = Some h" and mi: "dec [i1, i2] = Some mi"
    unfolding ts hhmm_minutes_def by (auto split: if_splits option.splits)
  from dec_no_T [OF h] dec_no_T [OF mi] c show ?thesis
    by (auto simp: str_includes_def ts)
qed



lemma hasInvalidTimeWindows_nth:
  "hasInvalidTimeWindows parseDate vs = (\<exists>i < length vs. invalid_window parseDate (vs ! i))"
proof -
  have "hasInvalidTimeWindows parseDate vs = (\<exists>v \<in> set vs. invalid_window parseDate v)"
    by (simp add: hasInvalidTimeWindows_def invalid_window_def list_ex_iff)
  also have "\<dots> = (\<exists>i < length vs. invalid_window parseDate (vs ! i))"
    by (metis in_set_conv_nth)
  finally show ?thesis .
qed

lemma hhmm_minutes_nonempty: "hhmm_minutes s = Some a \<Longrightarrow> s \<noteq> []"
  by (auto simp: hhmm_minutes_def split: if_splits)

lemma window_minutes_truthy:
  "window_minutes ord = Some (a, b) \<Longrightarrow>
   truthy_str (time_window_start ord) \<and> truthy_str (time_window_end ord)"
  by (auto simp: window_minutes_def truthy_str_def split: option.splits
      dest: hhmm_minutes_nonempty)

lemma buildVisit_hhmm_window:
  assumes today: "date_days today = Some n"
    and tw: "hasTimeWindows pa"
    and w: "window_minutes ord = Some (a, b)"
    and v: "buildVisit today pa i ord = Inr v"
  shows "invalid_window (dateMs legacy toUTC) v = (a \<ge> b)"
proof -
  from w obtain s e where
    s: "time_window_start ord = Some s" and e: "time_window_end ord = Some e" and
    a: "hhmm_minutes s = Some a" and b: "hhmm_minutes e = Some b"
    by (auto simp: window_minutes_def split: option.splits)
  have tr: "truthy_str (time_window_start ord)" "truthy_str (time_window_end ord)"
    using window_minutes_truthy [OF w] by simp_all
  have "time_window v = Some (with_today today s, with_today today e)"
    using v tw tr s e hhmm_no_T [OF a]
    by (auto simp: buildVisit_def Let_def split: if_splits)
  then show ?thesis
    using hhmm_window_order [OF today a b] by (simp add: invalid_window_def)
qed

lemma buildVisit_no_window_valid:
  assumes v: "buildVisit today pa i ord = Inr v"
    and "\<not> (truthy_str (time_window_start ord) \<and> truthy_str (time_window_end ord))"
  shows "\<not> invalid_window parseDate v"
  using buildVisit_no_window [OF v] assms(2) by (simp add: invalid_window_def)

lemma transformToOmeletRequest_built:
  assumes "buildDepot depots drivers = Inr dp"
    and "buildVisits today orders
           (analyzeProblemType drivers orders (optionsWithCapacity drivers orders options)) = Inr vs"
    and "vs \<noteq> []" and "drivers \<noteq> []"
  shows "isl (snd (transformToOmeletRequest today parseDate drivers orders depots options)) =
           (hasTimeWindows (snd (buildVehicles today drivers
              (analyzeProblemType drivers orders (optionsWithCapacity drivers orders options)))) \<and>
            hasInvalidTimeWindows parseDate vs)"
    and "snd (transformToOmeletRequest today parseDate drivers orders depots options) = Inl err
           \<Longrightarrow> err = INVALID_TIME_WINDOWS"
proof -
  let ?pa = "analyzeProblemType drivers orders (optionsWithCapacity drivers orders options)"
  obtain vhs pa' where b: "buildVehicles today drivers ?pa = (vhs, pa')"
    by (cases "buildVehicles today drivers ?pa")
  have "length vhs = length drivers" using buildVehicles_analysis [of today drivers ?pa] b by simp
  with assms(4) have ne: "vhs \<noteq> []" by auto
  show "isl (snd (transformToOmeletRequest today parseDate drivers orders depots options)) =
           (hasTimeWindows (snd (buildVehicles today drivers ?pa)) \<and>
            hasInvalidTimeWindows parseDate vs)"
    using assms(1-3) b ne
    by (simp add: transformToOmeletRequest_def Let_def validateRequest_def buildFinalRequest_def)
  show "err = INVALID_TIME_WINDOWS"
    if "snd (transformToOmeletRequest today parseDate drivers orders depots options) = Inl err"
    using that assms(1-3) b ne
    by (simp add: transformToOmeletRequest_def Let_def validateRequest_def buildFinalRequest_def
        split: if_splits)
qed

lemma transformToOmeletRequest_hhmm_windows:
  assumes today: "date_days today = Some n"
    and dp: "buildDepot depots drivers = Inr dp"
    and vs: "buildVisits today orders
           (analyzeProblemType drivers orders (optionsWithCapacity drivers orders options)) = Inr vs"
    and ne: "drivers \<noteq> []" "orders \<noteq> []"
    and wf: "\<forall>ord \<in> set orders.
               truthy_str (time_window_start ord) \<and> truthy_str (time_window_end ord)
               \<longrightarrow> window_minutes ord \<noteq> None"
  shows "snd (transformToOmeletRequest today (dateMs legacy toUTC) drivers orders depots options)
           = Inl INVALID_TIME_WINDOWS
         \<longleftrightarrow> (\<exists>ord \<in> set orders. \<exists>a b. window_minutes ord = Some (a, b) \<and> a \<ge> b)"
proof -
  let ?pa = "analyzeProblemType drivers orders (optionsWithCapacity drivers orders options)"
  let ?t = "transformToOmeletRequest today (dateMs legacy toUTC) drivers orders depots options"
  from buildVisits_nth [OF vs] have
    l: "length vs = length orders" and
    n: "\<forall>i < length orders. buildVisit today ?pa i (orders ! i) = Inr (vs ! i)"
    by simp_all
  have vne: "vs \<noteq> []" using l ne by auto
  have K: "invalid_window (dateMs legacy toUTC) (vs ! i) =
             (\<exists>a b. window_minutes (orders ! i) = Some (a, b) \<and> a \<ge> b)"
    if i: "i < length orders" for i
  proof (cases "truthy_str (time_window_start (orders ! i)) \<and>
                truthy_str (time_window_end (orders ! i))")
    case True
    with wf i obtain a b where w: "window_minutes (orders ! i) = Some (a, b)" by fastforce
    have tw: "hasTimeWindows ?pa"
      using True i by (auto simp: hasTimeWindows_eq)
    from n i have "buildVisit today ?pa i (orders ! i) = Inr (vs ! i)" by simp
    from buildVisit_hhmm_window [OF today tw w this] w show ?thesis by simp
  next
    case False
    from n i have "buildVisit today ?pa i (orders ! i) = Inr (vs ! i)" by simp
    from buildVisit_no_window_valid [OF this False]
    have "\<not> invalid_window (dateMs legacy toUTC) (vs ! i)" .
    moreover have "window_minutes (orders ! i) \<noteq> Some (a, b)" for a b
      using window_minutes_truthy [of "orders ! i" a b] False by blast
    ultimately show ?thesis by simp
  qed
  have inv: "hasInvalidTimeWindows (dateMs legacy toUTC) vs =
               (\<exists>ord \<in> set orders. \<exists>a b. window_minutes ord = Some (a, b) \<and> a \<ge> b)"
  proof -
    have "hasInvalidTimeWindows (dateMs legacy toUTC) vs =
            (\<exists>i < length orders. \<exists>a b. window_minutes (orders ! i) = Some (a, b) \<and> a \<ge> b)"
      unfolding hasInvalidTimeWindows_nth l using K by blast
    also have "\<dots> = (\<exists>ord \<in> set orders. \<exists>a b. window_minutes ord = Some (a, b) \<and> a \<ge> b)"
      by (metis in_set_conv_nth)
    finally show ?thesis .
  qed
  have flag: "hasTimeWindows (snd (buildVehicles today drivers ?pa))"
    if "hasInvalidTimeWindows (dateMs legacy toUTC) vs"
  proof -
    from that inv obtain ord a b where "ord \<in> set orders" "window_minutes ord = Some (a, b)"
      by blast
    with window_minutes_truthy have "hasTimeWindows ?pa" by (auto simp: hasTimeWindows_eq)
    then show ?thesis by (simp add: buildVehicles_analysis)
  qed
  from transformToOmeletRequest_built [OF dp vs vne ne(1), of "dateMs legacy toUTC"]
  have a: "isl (snd ?t) = (hasTimeWindows (snd (buildVehicles today drivers ?pa)) \<and>
                           hasInvalidTimeWindows (dateMs legacy toUTC) vs)"
    and b: "\<And>err. snd ?t = Inl err \<Longrightarrow> err = INVALID_TIME_WINDOWS"
    by simp_all
  have "snd ?t = Inl INVALID_TIME_WINDOWS \<longleftrightarrow> isl (snd ?t)"
    using b by (cases "snd ?t") auto
  with a flag inv show ?thesis by blast
qed

text \<open>Two windows in the form \<open>HH:MM\<close>, run through the whole builder.\<close>

lemma transformToOmeletRequest_hhmm_examples:
  "snd (transformToOmeletRequest ''2026-11-03'' isoDateMs [sample_driver]
     [sample_order\<lparr>time_window_start := Some ''18:00'', time_window_end := Some ''09:00''\<rparr>] []
     no_options) = Inl INVALID_TIME_WINDOWS \<and>
   snd (transformToOmeletRequest ''2026-11-03'' isoDateMs [sample_driver]
     [sample_order\<lparr>time_window_start := Some ''09:00'', time_window_end := Some ''09:00''\<rparr>] []
     no_options) = Inl INVALID_TIME_WINDOWS \<and>
   map_sum id (map time_window \<circ> visits)
     (snd (transformToOmeletRequest ''2026-11-03'' isoDateMs [sample_driver]
        [sample_order\<lparr>time_window_start := Some ''09:00'', time_window_end := Some ''18:00''\<rparr>] []
        no_options)) = Inr [Some (''2026-11-03T09:00:00Z'', ''2026-11-03T18:00:00Z'')]"
  by code_simp

text \<open>
  Readings of the first stage, on every host: a fraction, an offset, the hour 24, a date
  alone (UTC), a local time, a string left to the second stage, and the two malformed bounds
  that \<open>buildVisits\<close> makes of a date-qualified bound.
\<close>

lemma dateMs_examples:
  "dateMs legacy toUTC ''2026-11-03T09:00:00Z'' = Some 1793696400000 \<and>
   dateMs legacy toUTC ''2026-11-03T09:00:00.000Z'' = Some 1793696400000 \<and>
   dateMs legacy toUTC ''2026-11-03T09:00:00.25Z'' = Some 1793696400250 \<and>
   dateMs legacy toUTC ''2026-11-03T18:00:00+09:00'' = Some 1793696400000 \<and>
   dateMs legacy toUTC ''2026-11-03T07:30:00-0130'' = Some 1793696400000 \<and>
   dateMs legacy toUTC ''2026-11-03T24:00:00Z'' = Some 1793750400000 \<and>
   dateMs legacy toUTC ''2026-11-04T00:00:00Z'' = Some 1793750400000 \<and>
   dateMs legacy toUTC ''2026-11-03T24:00:01Z'' = None \<and>
   dateMs legacy toUTC ''2026-11-03'' = Some 1793664000000 \<and>
   dateMs legacy (\<lambda>t. Some (t - 32400000)) ''2026-11-03T18:00'' = Some 1793696400000 \<and>
   dateMs legacy toUTC ''2026-11-03 09:00'' = legacy ''2026-11-03 09:00'' \<and>
   dateMs legacy toUTC ''2026-11-03T2026-11-03T18:00:00Z:00Z'' = None \<and>
   dateMs legacy toUTC ''2026-11-03T2026-11-03 18:00:00Z'' = None"
  by code_simp

text \<open>
  The windows of mixed format: whatever the second stage and the time zone of the host, the
  end bound that \<open>buildVisits\<close> builds is an invalid date and the build succeeds.
\<close>

lemma mixed_format_window_on_every_host:
  "map_sum id (map time_window \<circ> visits)
     (snd (transformToOmeletRequest ''2026-11-03'' (dateMs legacy toUTC) [sample_driver]
        [sample_order\<lparr>time_window_start := Some ''09:00'',
                      time_window_end := Some ''2026-11-03T18:00:00Z''\<rparr>] [] no_options))
     = Inr [Some (''2026-11-03T09:00:00Z'', ''2026-11-03T2026-11-03T18:00:00Z:00Z'')] \<and>
   map_sum id (map time_window \<circ> visits)
     (snd (transformToOmeletRequest ''2026-11-03'' (dateMs legacy toUTC) [sample_driver]
        [sample_order\<lparr>time_window_start := Some ''18:00'',
                      time_window_end := Some ''2026-11-03T09:00:00Z''\<rparr>] [] no_options))
     = Inr [Some (''2026-11-03T18:00:00Z'', ''2026-11-03T2026-11-03T09:00:00Z:00Z'')] \<and>
   map_sum id (map time_window \<circ> visits)
     (snd (transformToOmeletRequest ''2026-11-03'' (dateMs legacy toUTC) [sample_driver]
        [sample_order\<lparr>time_window_start := Some ''2026-11-03 09:00'',
                      time_window_end := Some ''2026-11-03 18:00''\<rparr>] [] no_options))
     = Inr [Some (''2026-11-03T2026-11-03 09:00:00Z'', ''2026-11-03T2026-11-03 18:00:00Z'')]"
  by code_simp

text \<open>
  Claim C5 says that for every order whose time window starts before it ends, the
  normalisation passes date-qualified bounds through, combines \<open>HH:MM\<close> bounds with the
  current date, and so produces two time stamps in order; and that a window with start at
  or after end fails the build. \<open>buildVisits\<close> decides for both bounds from the start bound
  alone (\<open>buildVehicles\<close> looks at each bound on its own). For an order from 09:00 to
  18:00 today whose end bound is date-qualified, the end bound gets the date a second time
  and is no time stamp; with the start bound 18:00 and the end bound 09:00 today the same
  happens, the invalid date compares false, and the build succeeds. A date-qualified
  window written with a space instead of \<open>T\<close> is treated in the same way.
\<close>

theorem buildVisits_mixed_format_window:
  "map_sum id (map time_window \<circ> visits)
     (snd (transformToOmeletRequest ''2026-11-03'' isoDateMs [sample_driver]
        [sample_order\<lparr>time_window_start := Some ''09:00'',
                      time_window_end := Some ''2026-11-03T18:00:00Z''\<rparr>] [] no_options))
     = Inr [Some (''2026-11-03T09:00:00Z'', ''2026-11-03T2026-11-03T18:00:00Z:00Z'')] \<and>
   isoDateMs ''2026-11-03T09:00:00Z'' = Some 1793696400000 \<and>
   isoDateMs ''2026-11-03T18:00:00Z'' = Some 1793728800000 \<and>
   isoDateMs ''2026-11-03T2026-11-03T18:00:00Z:00Z'' = None \<and>
   work_time ''2026-11-03'' ''2026-11-03T18:00:00Z'' = ''2026-11-03T18:00:00Z'' \<and>
   map_sum id (map time_window \<circ> visits)
     (snd (transformToOmeletRequest ''2026-11-03'' isoDateMs [sample_driver]
        [sample_order\<lparr>time_window_start := Some ''18:00'',
                      time_window_end := Some ''2026-11-03T09:00:00Z''\<rparr>] [] no_options))
     = Inr [Some (''2026-11-03T18:00:00Z'', ''2026-11-03T2026-11-03T09:00:00Z:00Z'')] \<and>
   map_sum id (map time_window \<circ> visits)
     (snd (transformToOmeletRequest ''2026-11-03'' isoDateMs [sample_driver]
        [sample_order\<lparr>time_window_start := Some ''2026-11-03 09:00'',
                      time_window_end := Some ''2026-11-03 18:00''\<rparr>] [] no_options))
     = Inr [Some (''2026-11-03T2026-11-03 09:00:00Z'', ''2026-11-03T2026-11-03 18:00:00Z'')]"
  by code_simp

end
